theory Spec2Isabelle
  imports Main "HOL-Library.Option_ord"
begin

section \<open>Values shared by the collector, the orchestrator and the bot\<close>

text \<open>
  Python exceptions are values. Only subclasses of \<open>Exception\<close> are modelled (the
  handlers of the source are all \<open>except Exception\<close>). \<open>External\<close> is an exception raised
  by a collaborator (the Telegram client, the OpenAI client, the database engine) and carries
  its message.
\<close>

datatype exn =
    AttributeError
  | IndexError
  | KeyError string
  | ValueError
  | TypeError
  | OverflowError
  | RecursionError
  | JSONDecodeError
  | IntegrityError
  | External string

text \<open>
  A naive \<open>datetime\<close> is the number of microseconds since 0001-01-01T00:00:00; the order of
  the integers is the order of the datetimes.
\<close>

type_synonym datetime = int

text \<open>What \<open>json.loads\<close> returns and \<open>json.dumps\<close> takes. A float is kept as its literal.\<close>

datatype json =
    JNull
  | JBool bool
  | JInt int
  | JFloat string
  | JStr string
  | JArr "json list"
  | JObj "(string \<times> json) list"

text \<open>\<open>str(n)\<close> for a Python int.\<close>

fun str_nat :: "nat \<Rightarrow> string" where
  "str_nat n =
     (if n < 10 then [''0123456789'' ! n]
      else str_nat (n div 10) @ [''0123456789'' ! (n mod 10)])"

definition str_int :: "int \<Rightarrow> string" where
  "str_int i = (if i < 0 then CHR ''-'' # str_nat (nat (- i)) else str_nat (nat i))"

section \<open>The database (src/database/models.py, src/database/db.py)\<close>

text \<open>
  One record per mapped class that the collector or the orchestrator writes (\<open>Channel\<close> is
  written by the REST layer only). The primary key \<open>id\<close> of an object is \<open>None\<close> from its
  construction until the session flushes it: no constructor call of the source passes \<open>id\<close>,
  and the sessions are made with \<open>autoflush=False\<close>. Of the columns \<open>created_at\<close> and
  \<open>updated_at\<close> only \<open>Analysis.created_at\<close> is ever read, so only that one is kept.
\<close>

record user_row =
  u_id :: "int option"
  u_tg_id :: int
  u_username :: "string option"
  u_first_name :: "string option"
  u_last_name :: "string option"

record post_row =
  p_id :: "int option"
  p_tg_id :: int
  p_channel_id :: int
  p_content :: string
  p_posted_at :: datetime
  p_views :: "int option"
  p_forwards :: "int option"

record comment_row =
  c_id :: "int option"
  c_tg_id :: int
  c_post_id :: int
  c_user_id :: "int option"
  c_content :: string
  c_commented_at :: datetime

record reaction_row =
  r_id :: "int option"
  r_post_id :: "int option"
  r_comment_id :: "int option"
  r_reaction_type :: string
  r_count :: int

record analysis_row =
  a_id :: "int option"
  a_channel_id :: "int option"
  a_post_id :: "int option"
  a_analysis_type :: string
  a_content :: string
  a_created_at :: "datetime option"

record content_plan_row =
  cp_id :: "int option"
  cp_channel_id :: int
  cp_title :: json
  cp_description :: json
  cp_planned_date :: datetime
  cp_content :: string
  cp_status :: string

record survey_row =
  s_id :: "int option"
  s_channel_id :: int
  s_title :: json
  s_description :: json
  s_questions :: string
  s_status :: string

datatype orm_obj =
    OUser user_row
  | OPost post_row
  | OComment comment_row
  | OReaction reaction_row
  | OAnalysis analysis_row
  | OContentPlan content_plan_row
  | OSurvey survey_row

record db =
  users :: "user_row list"
  posts :: "post_row list"
  comments :: "comment_row list"
  reactions :: "reaction_row list"
  analyses :: "analysis_row list"
  content_plans :: "content_plan_row list"
  surveys :: "survey_row list"

definition empty_db :: db where
  "empty_db = \<lparr>users = [], posts = [], comments = [], reactions = [], analyses = [],
     content_plans = [], surveys = []\<rparr>"

text \<open>
  The storage engine is a collaborator: whether it accepts a query or a flush (connection
  lost, value it cannot bind, ...) is a parameter. The constraints that models.py declares
  and the claims depend on are checked by \<open>commit\<close> itself.
\<close>

datatype query =
    QPostsOfChannel int
  | QCommentsOfPost "int option"
  | QReactionsOfPost "int option"
  | QLatestAnalysis int
  | QPostById int

record engine =
  query_fault :: "query \<Rightarrow> exn option"
  commit_fault :: "orm_obj list \<Rightarrow> exn option"
  utcnow :: datetime

text \<open>The next value of an integer primary key: one more than the largest stored.\<close>

definition next_id :: "int option list \<Rightarrow> int" where
  "next_id ids = fold max (map (\<lambda>i. case i of None \<Rightarrow> 0 | Some k \<Rightarrow> k) ids) 0 + 1"

text \<open>
  INSERT of one pending object. A column whose value is \<open>None\<close> is left out of the
  statement, so its default applies: 0 for \<open>views\<close> and \<open>forwards\<close> of a Post, \<open>utcnow\<close> for
  \<open>created_at\<close> of an Analysis.
\<close>

definition or_default :: "'a \<Rightarrow> 'a option \<Rightarrow> 'a option" where
  "or_default v x = (case x of None \<Rightarrow> Some v | Some y \<Rightarrow> Some y)"

fun flush_obj :: "datetime \<Rightarrow> db \<Rightarrow> orm_obj \<Rightarrow> db" where
  "flush_obj now d (OUser u) =
     d\<lparr>users := users d @ [u\<lparr>u_id := Some (next_id (map u_id (users d)))\<rparr>]\<rparr>"
| "flush_obj now d (OPost p) =
     d\<lparr>posts := posts d @
        [p\<lparr>p_id := Some (next_id (map p_id (posts d))),
           p_views := or_default 0 (p_views p),
           p_forwards := or_default 0 (p_forwards p)\<rparr>]\<rparr>"
| "flush_obj now d (OComment c) =
     d\<lparr>comments := comments d @ [c\<lparr>c_id := Some (next_id (map c_id (comments d)))\<rparr>]\<rparr>"
| "flush_obj now d (OReaction r) =
     d\<lparr>reactions := reactions d @ [r\<lparr>r_id := Some (next_id (map r_id (reactions d)))\<rparr>]\<rparr>"
| "flush_obj now d (OAnalysis a) =
     d\<lparr>analyses := analyses d @
        [a\<lparr>a_id := Some (next_id (map a_id (analyses d))),
           a_created_at := or_default now (a_created_at a)\<rparr>]\<rparr>"
| "flush_obj now d (OContentPlan c) =
     d\<lparr>content_plans := content_plans d @
        [c\<lparr>cp_id := Some (next_id (map cp_id (content_plans d)))\<rparr>]\<rparr>"
| "flush_obj now d (OSurvey s) =
     d\<lparr>surveys := surveys d @ [s\<lparr>s_id := Some (next_id (map s_id (surveys d)))\<rparr>]\<rparr>"

text \<open>\<open>users.tg_id\<close> is declared \<open>unique=True\<close>; no other column a collector or orchestrator
  writes is.\<close>

fun pending_user_tg_ids :: "orm_obj list \<Rightarrow> int list" where
  "pending_user_tg_ids [] = []"
| "pending_user_tg_ids (OUser u # os) = u_tg_id u # pending_user_tg_ids os"
| "pending_user_tg_ids (_ # os) = pending_user_tg_ids os"

text \<open>An INSERT fails when the new external ids repeat one another or a stored one.\<close>

definition unique_violation :: "db \<Rightarrow> orm_obj list \<Rightarrow> bool" where
  "unique_violation d pending =
     (let new_ids = pending_user_tg_ids pending
      in if distinct new_ids then list_ex (\<lambda>i. i \<in> set (map u_tg_id (users d))) new_ids
         else True)"

text \<open>\<open>content_plans.title\<close> and \<open>surveys.title\<close> are \<open>nullable=False\<close> and receive a value
  of the model's response; every other non-nullable column receives a value that cannot be
  \<open>None\<close>.\<close>

fun null_violation :: "orm_obj \<Rightarrow> bool" where
  "null_violation (OContentPlan c) = (cp_title c = JNull)"
| "null_violation (OSurvey s) = (s_title s = JNull)"
| "null_violation _ = False"

text \<open>
  \<open>Session.commit()\<close>: flush the pending objects in the order they were added and make
  them durable, or raise and store nothing.
\<close>

definition commit :: "engine \<Rightarrow> db \<Rightarrow> orm_obj list \<Rightarrow> exn + db" where
  "commit eng d pending =
     (case commit_fault eng pending of
        Some e \<Rightarrow> Inl e
      | None \<Rightarrow>
          if unique_violation d pending \<or> list_ex null_violation pending then Inl IntegrityError
          else Inr (fold (\<lambda>ob acc. flush_obj (utcnow eng) acc ob) pending d))"

declare str_nat.simps [simp del]

section \<open>The collector (src/data/collector.py)\<close>

subsection \<open>What the Telegram client hands over\<close>

datatype peer = PeerUser int | PeerChannel int | PeerChat int

record tg_user =
  tu_id :: int
  tu_username :: "string option"
  tu_first_name :: "string option"
  tu_last_name :: "string option"

datatype tg_entity = EChannel int | EUser tg_user | EChat int

fun entity_id :: "tg_entity \<Rightarrow> int" where
  "entity_id (EChannel i) = i"
| "entity_id (EUser u) = tu_id u"
| "entity_id (EChat i) = i"

text \<open>The reaction of a \<open>ReactionCount\<close>: only two of the kinds have a field the collector
  reads.\<close>

datatype tg_reaction =
    ReactionEmoji string
  | ReactionCustomEmoji int
  | ReactionEmpty
  | ReactionPaid

record reaction_count =
  rc_reaction :: tg_reaction
  rc_count :: int

text \<open>
  A message of the history. \<open>m_message\<close> is \<open>None\<close> for a service message,
  \<open>m_reactions\<close> is \<open>None\<close> when the attribute is missing or \<open>None\<close>, otherwise the
  \<open>results\<close> of the \<open>MessageReactions\<close>. \<open>views\<close> and \<open>forwards\<close> are attributes of every
  message, so \<open>getattr(message, "views", 0)\<close> is the attribute's value, \<open>None\<close> included.
\<close>

record tg_message =
  m_id :: int
  m_date :: datetime
  m_message :: "string option"
  m_views :: "int option"
  m_forwards :: "int option"
  m_reactions :: "reaction_count list option"
  m_from_id :: "peer option"

datatype entity_ref = ByUsername string | ByPeer peer

record tg_client =
  get_entity :: "entity_ref \<Rightarrow> exn + tg_entity"
  get_history :: "tg_entity \<Rightarrow> int \<Rightarrow> datetime option \<Rightarrow> exn + tg_message list"
  get_messages_ids :: "tg_entity \<Rightarrow> int \<Rightarrow> exn + tg_message option"
  get_messages_reply_to :: "tg_entity \<Rightarrow> int \<Rightarrow> int \<Rightarrow> exn + tg_message list"

text \<open>\<open>self.client\<close> is \<open>None\<close> until \<open>start()\<close> has run.\<close>

record collector =
  client :: "tg_client option"
  channel_username :: string

subsection \<open>The dictionaries the collector returns\<close>

record post_data =
  pd_id :: int
  pd_date :: datetime
  pd_text :: string
  pd_views :: "int option"
  pd_forwards :: "int option"

record comment_data =
  cd_id :: int
  cd_post_id :: int
  cd_date :: datetime
  cd_text :: string
  cd_user :: "tg_user option"

subsection \<open>\<open>_save_reactions\<close>\<close>

text \<open>
  In the source the body of this method stands at the indentation of its \<open>def\<close>, which
  Python rejects; it is modelled as the body of the method. A message whose \<open>reactions\<close>
  is set always holds a \<open>MessageReactions\<close>, so the \<open>isinstance\<close> test of the source has
  no second branch here.
\<close>

text \<open>The three-tier label: \<open>emoticon\<close>, else \<open>custom_<document_id>\<close>, else \<open>str\<close> of the
  reaction object.\<close>

fun reaction_type_of :: "tg_reaction \<Rightarrow> string" where
  "reaction_type_of (ReactionEmoji e) = e"
| "reaction_type_of (ReactionCustomEmoji doc) = ''custom_'' @ str_int doc"
| "reaction_type_of ReactionEmpty = ''ReactionEmpty()''"
| "reaction_type_of ReactionPaid = ''ReactionPaid()''"

text \<open>\<open>entity.id if isinstance(entity, Post) else None\<close> and its twin for Comment.\<close>

fun post_id_of :: "orm_obj \<Rightarrow> int option" where
  "post_id_of (OPost p) = p_id p"
| "post_id_of _ = None"

fun comment_id_of :: "orm_obj \<Rightarrow> int option" where
  "comment_id_of (OComment c) = c_id c"
| "comment_id_of _ = None"

definition reaction_model :: "orm_obj \<Rightarrow> reaction_count \<Rightarrow> reaction_row" where
  "reaction_model entity reaction =
     \<lparr>r_id = None,
      r_post_id = post_id_of entity,
      r_comment_id = comment_id_of entity,
      r_reaction_type = reaction_type_of (rc_reaction reaction),
      r_count = rc_count reaction\<rparr>"

text \<open>Returns the objects it adds to the session.\<close>

definition save_reactions :: "tg_message \<Rightarrow> orm_obj \<Rightarrow> orm_obj list" where
  "save_reactions message entity =
     (case m_reactions message of
        None \<Rightarrow> []
      | Some results \<Rightarrow> map (\<lambda>reaction. OReaction (reaction_model entity reaction)) results)"

subsection \<open>\<open>get_posts\<close>\<close>

text \<open>\<open>not x\<close> for an optional string: \<open>None\<close> and the empty string are falsy.\<close>

fun falsy_str :: "string option \<Rightarrow> bool" where
  "falsy_str None = True"
| "falsy_str (Some s) = (s = [])"

definition post_of_message :: "tg_entity \<Rightarrow> tg_message \<Rightarrow> string \<Rightarrow> post_row" where
  "post_of_message entity message text =
     \<lparr>p_id = None,
      p_tg_id = m_id message,
      p_channel_id = entity_id entity,
      p_content = text,
      p_posted_at = m_date message,
      p_views = m_views message,
      p_forwards = m_forwards message\<rparr>"

text \<open>The loop over \<open>history.messages\<close>: the dictionaries appended to \<open>posts\<close> and the objects
  added to the session, in order.\<close>

fun posts_loop :: "tg_entity \<Rightarrow> tg_message list \<Rightarrow> post_data list \<times> orm_obj list" where
  "posts_loop entity [] = ([], [])"
| "posts_loop entity (message # rest) =
     (case m_message message of
        None \<Rightarrow> posts_loop entity rest
      | Some text \<Rightarrow>
          if text = [] then posts_loop entity rest
          else
            (let post = post_of_message entity message text;
                 data = \<lparr>pd_id = m_id message, pd_date = m_date message, pd_text = text,
                         pd_views = m_views message, pd_forwards = m_forwards message\<rparr>;
                 (ds, obs) = posts_loop entity rest
             in (data # ds, OPost post # save_reactions message (OPost post) @ obs)))"

text \<open>\<open>if not channel_username: channel_username = self.channel_username\<close>.\<close>

definition chosen_username :: "collector \<Rightarrow> string option \<Rightarrow> string" where
  "chosen_username self username =
     (case username of
        None \<Rightarrow> channel_username self
      | Some n \<Rightarrow> if n = [] then channel_username self else n)"

definition get_posts ::
  "collector \<Rightarrow> engine \<Rightarrow> db \<Rightarrow> string option \<Rightarrow> int \<Rightarrow> datetime option
     \<Rightarrow> (exn + post_data list) \<times> db" where
  "get_posts self eng d username limit offset_date =
     (case client self of
           None \<Rightarrow> (Inl AttributeError, d)
         | Some cl \<Rightarrow>
            (case get_entity cl (ByUsername (chosen_username self username)) of
               Inl e \<Rightarrow> (Inl e, d)
             | Inr entity \<Rightarrow>
                (case get_history cl entity limit offset_date of
                   Inl e \<Rightarrow> (Inl e, d)
                 | Inr messages \<Rightarrow>
                    (let (ps, pending) = posts_loop entity messages
                     in case commit eng d pending of
                          Inl e \<Rightarrow> (Inl e, d)
                        | Inr d' \<Rightarrow> (Inr ps, d')))))"

subsection \<open>\<open>get_comments\<close>\<close>

text \<open>
  The author of a reply, best effort: the \<open>try\<close> around \<open>get_entity\<close> swallows every
  exception, and an entity that is not a \<open>User\<close> leaves \<open>user_info\<close> at \<open>None\<close>.
\<close>

definition resolve_author :: "tg_client \<Rightarrow> tg_message \<Rightarrow> tg_user option" where
  "resolve_author cl reply =
     (case m_from_id reply of
        None \<Rightarrow> None
      | Some from_id \<Rightarrow>
         (case get_entity cl (ByPeer from_id) of
            Inl e \<Rightarrow> None
          | Inr (EUser user) \<Rightarrow> Some user
          | Inr _ \<Rightarrow> None))"

text \<open>\<open>UserModel(tg_id=..., ...)\<close> handed to \<open>db.merge\<close>. The object has no primary key, so
  \<open>merge\<close> finds nothing to reconcile it with and adds a new pending object.\<close>

definition db_user_of :: "tg_user \<Rightarrow> user_row" where
  "db_user_of user =
     \<lparr>u_id = None, u_tg_id = tu_id user, u_username = tu_username user,
      u_first_name = tu_first_name user, u_last_name = tu_last_name user\<rparr>"

definition comment_of_reply ::
  "int \<Rightarrow> tg_message \<Rightarrow> string \<Rightarrow> tg_user option \<Rightarrow> comment_row" where
  "comment_of_reply post_id reply text user_info =
     \<lparr>c_id = None,
      c_tg_id = m_id reply,
      c_post_id = post_id,
      c_user_id = (case user_info of Some u \<Rightarrow> Some (tu_id u) | None \<Rightarrow> None),
      c_content = text,
      c_commented_at = m_date reply\<rparr>"

fun comments_loop ::
  "tg_client \<Rightarrow> int \<Rightarrow> tg_message list \<Rightarrow> comment_data list \<times> orm_obj list" where
  "comments_loop cl post_id [] = ([], [])"
| "comments_loop cl post_id (reply # rest) =
     (case m_message reply of
        None \<Rightarrow> comments_loop cl post_id rest
      | Some text \<Rightarrow>
          if text = [] then comments_loop cl post_id rest
          else
            (let user_info = resolve_author cl reply;
                 merged = (case user_info of Some u \<Rightarrow> [OUser (db_user_of u)] | None \<Rightarrow> []);
                 data = \<lparr>cd_id = m_id reply, cd_post_id = post_id, cd_date = m_date reply,
                         cd_text = text, cd_user = user_info\<rparr>;
                 comment = comment_of_reply post_id reply text user_info;
                 (ds, obs) = comments_loop cl post_id rest
             in (data # ds,
                 merged @ OComment comment # save_reactions reply (OComment comment) @ obs)))"

definition get_comments ::
  "collector \<Rightarrow> engine \<Rightarrow> db \<Rightarrow> string option \<Rightarrow> int option \<Rightarrow> int
     \<Rightarrow> (exn + comment_data list) \<times> db" where
  "get_comments self eng d username post_id limit =
     (case client self of
           None \<Rightarrow> (Inl AttributeError, d)
         | Some cl \<Rightarrow>
            (case get_entity cl (ByUsername (chosen_username self username)) of
               Inl e \<Rightarrow> (Inl e, d)
             | Inr entity \<Rightarrow>
                (case post_id of
                   None \<Rightarrow> (Inr [], d)
                 | Some pid \<Rightarrow>
                    if pid = 0 then (Inr [], d)
                    else
                     (case get_messages_ids cl entity pid of
                        Inl e \<Rightarrow> (Inl e, d)
                      | Inr None \<Rightarrow> (Inr [], d)
                      | Inr (Some message) \<Rightarrow>
                         (case get_messages_reply_to cl entity (m_id message) limit of
                            Inl e \<Rightarrow> (Inl e, d)
                          | Inr replies \<Rightarrow>
                             (let (cs, pending) = comments_loop cl pid replies
                              in case commit eng d pending of
                                   Inl e \<Rightarrow> (Inl e, d)
                                 | Inr d' \<Rightarrow> (Inr cs, d')))))))"

section \<open>The orchestrator (src/analysis/llm_service.py)\<close>

subsection \<open>Collaborators\<close>

text \<open>
  A prompt is the f-string of the source with its fixed text left out: what remains is the
  task and the values interpolated into it (the value handed to \<open>json.dumps\<close>, and \<open>days\<close>).
\<close>

datatype prompt =
    ChannelContentPrompt json
  | ContentPlanPrompt json int
  | PostPerformancePrompt json
  | SurveyPrompt json

text \<open>The arguments of \<open>openai.ChatCompletion.acreate\<close>; the temperature in tenths.\<close>

record llm_request =
  rq_model :: string
  rq_prompt :: prompt
  rq_temperature :: nat
  rq_max_tokens :: nat

text \<open>
  \<open>acreate\<close> answers with \<open>response.choices[0].message.content\<close> or raises. \<open>loads\<close> is
  \<open>json.loads\<close>, which returns a value or raises: \<open>JSONDecodeError\<close> on text that is not
  JSON, and other exceptions as well (\<open>RecursionError\<close> on deeply nested text, \<open>ValueError\<close>
  on a number of too many digits). \<open>dumps\<close> is \<open>json.dumps\<close>, \<open>isoformat\<close> is
  \<open>datetime.isoformat\<close> and \<open>exc_str\<close> is \<open>str\<close> of an exception.
\<close>

record llm_env =
  db_engine :: engine
  acreate :: "llm_request \<Rightarrow> exn + string"
  loads :: "string \<Rightarrow> exn + json"
  dumps :: "json \<Rightarrow> string"
  isoformat :: "datetime \<Rightarrow> string"
  exc_str :: "exn \<Rightarrow> string"

text \<open>
  \<open>self.db\<close>: the stored rows, the objects added and not yet committed, and (as a trace) the
  requests sent to the model so far.
\<close>

record session =
  store :: db
  pending :: "orm_obj list"
  calls :: "llm_request list"

definition model_name :: string where
  "model_name = ''gpt-4o''"

subsection \<open>Queries\<close>

definition run_query :: "llm_env \<Rightarrow> query \<Rightarrow> 'a \<Rightarrow> exn + 'a" where
  "run_query env q rows =
     (case query_fault (db_engine env) q of Some e \<Rightarrow> Inl e | None \<Rightarrow> Inr rows)"

text \<open>\<open>ORDER BY key DESC\<close>; rows with equal keys stay in storage order, as SQLite (the
  default engine of config.py) returns them.\<close>

definition order_desc :: "('a \<Rightarrow> 'k::linorder) \<Rightarrow> 'a list \<Rightarrow> 'a list" where
  "order_desc key rows = rev (sort_key key (rev rows))"

definition query_posts :: "llm_env \<Rightarrow> db \<Rightarrow> int \<Rightarrow> exn + post_row list" where
  "query_posts env d channel_id =
     run_query env (QPostsOfChannel channel_id)
       (take 50 (order_desc p_posted_at (filter (\<lambda>p. p_channel_id p = channel_id) (posts d))))"

definition query_comments :: "llm_env \<Rightarrow> db \<Rightarrow> int option \<Rightarrow> exn + comment_row list" where
  "query_comments env d pid =
     run_query env (QCommentsOfPost pid)
       (case pid of None \<Rightarrow> [] | Some i \<Rightarrow> filter (\<lambda>c. c_post_id c = i) (comments d))"

definition query_reactions :: "llm_env \<Rightarrow> db \<Rightarrow> int option \<Rightarrow> exn + reaction_row list" where
  "query_reactions env d pid =
     run_query env (QReactionsOfPost pid)
       (case pid of None \<Rightarrow> [] | Some i \<Rightarrow> filter (\<lambda>r. r_post_id r = Some i) (reactions d))"

definition query_latest_analysis :: "llm_env \<Rightarrow> db \<Rightarrow> int \<Rightarrow> exn + analysis_row option" where
  "query_latest_analysis env d channel_id =
     run_query env (QLatestAnalysis channel_id)
       (case order_desc a_created_at
               (filter (\<lambda>a. a_channel_id a = Some channel_id \<and>
                               a_analysis_type a = ''channel_content'') (analyses d)) of
          [] \<Rightarrow> None
        | a # _ \<Rightarrow> Some a)"

definition query_post :: "llm_env \<Rightarrow> db \<Rightarrow> int \<Rightarrow> exn + post_row option" where
  "query_post env d post_id =
     run_query env (QPostById post_id)
       (case filter (\<lambda>p. p_id p = Some post_id) (posts d) of [] \<Rightarrow> None | p # _ \<Rightarrow> Some p)"

subsection \<open>Payloads\<close>

definition opt_int :: "int option \<Rightarrow> json" where
  "opt_int v = (case v of None \<Rightarrow> JNull | Some i \<Rightarrow> JInt i)"

definition error_payload :: "string \<Rightarrow> json" where
  "error_payload msg = JObj [(''error'', JStr msg)]"

definition parse_failure :: "string \<Rightarrow> json" where
  "parse_failure result =
     JObj [(''error'', JStr ''Failed to parse response as JSON''), (''raw_response'', JStr result)]"

definition reaction_json :: "reaction_row \<Rightarrow> json" where
  "reaction_json r = JObj [(''type'', JStr (r_reaction_type r)), (''count'', JInt (r_count r))]"

text \<open>\<open>session.commit()\<close> on \<open>self.db\<close>: a failed commit rolls the transaction back, which
  also drops the pending objects.\<close>

definition session_commit :: "llm_env \<Rightarrow> session \<Rightarrow> exn + session" where
  "session_commit env s =
     (case commit (db_engine env) (store s) (pending s) of
        Inl e \<Rightarrow> Inl e
      | Inr d \<Rightarrow> Inr (s\<lparr>store := d, pending := []\<rparr>))"

definition session_add :: "session \<Rightarrow> orm_obj \<Rightarrow> session" where
  "session_add s ob = s\<lparr>pending := pending s @ [ob]\<rparr>"

definition send :: "llm_env \<Rightarrow> session \<Rightarrow> llm_request \<Rightarrow> (exn + string) \<times> session" where
  "send env s rq = (acreate env rq, s\<lparr>calls := calls s @ [rq]\<rparr>)"

text \<open>What the \<open>except Exception\<close> of every operation returns.\<close>

definition caught :: "llm_env \<Rightarrow> exn \<Rightarrow> json" where
  "caught env e = error_payload (exc_str env e)"

text \<open>\<open>add\<close> then \<open>commit\<close> inside the \<open>try\<close>: the payload on success, the caught error
  otherwise.\<close>

definition add_commit_return ::
  "llm_env \<Rightarrow> session \<Rightarrow> orm_obj \<Rightarrow> json \<Rightarrow> (exn + json) \<times> session" where
  "add_commit_return env s ob payload =
     (case session_commit env (session_add s ob) of
        Inl e \<Rightarrow> (Inr (caught env e), s\<lparr>pending := []\<rparr>)
      | Inr s' \<Rightarrow> (Inr payload, s'))"

subsection \<open>\<open>analyze_channel_content\<close>\<close>

definition channel_post_json ::
  "llm_env \<Rightarrow> post_row \<Rightarrow> comment_row list \<Rightarrow> reaction_row list \<Rightarrow> json" where
  "channel_post_json env post cs rs =
     JObj [(''id'', JInt (p_tg_id post)),
           (''content'', JStr (p_content post)),
           (''posted_at'', JStr (isoformat env (p_posted_at post))),
           (''views'', opt_int (p_views post)),
           (''forwards'', opt_int (p_forwards post)),
           (''comments_count'', JInt (int (length cs))),
           (''comments'',
              JArr (map (\<lambda>c. JObj [(''id'', JInt (c_tg_id c)), (''content'', JStr (c_content c)),
                                     (''user_id'', opt_int (c_user_id c))]) (take 10 cs))),
           (''reactions'', JArr (map reaction_json rs))]"

fun gather_posts :: "llm_env \<Rightarrow> db \<Rightarrow> post_row list \<Rightarrow> exn + json list" where
  "gather_posts env d [] = Inr []"
| "gather_posts env d (post # rest) =
     (case query_comments env d (p_id post) of
        Inl e \<Rightarrow> Inl e
      | Inr cs \<Rightarrow>
         (case query_reactions env d (p_id post) of
            Inl e \<Rightarrow> Inl e
          | Inr rs \<Rightarrow>
             (case gather_posts env d rest of
                Inl e \<Rightarrow> Inl e
              | Inr ds \<Rightarrow> Inr (channel_post_json env post cs rs # ds))))"

definition channel_analysis_row :: "llm_env \<Rightarrow> int \<Rightarrow> json \<Rightarrow> analysis_row" where
  "channel_analysis_row env channel_id analysis_data =
     \<lparr>a_id = None, a_channel_id = Some channel_id, a_post_id = None,
      a_analysis_type = ''channel_content'', a_content = dumps env analysis_data,
      a_created_at = None\<rparr>"

definition analyze_channel_content ::
  "llm_env \<Rightarrow> session \<Rightarrow> int \<Rightarrow> (exn + json) \<times> session" where
  "analyze_channel_content env s channel_id =
     (case query_posts env (store s) channel_id of
        Inl e \<Rightarrow> (Inl e, s)
      | Inr ps \<Rightarrow>
         if ps = [] then (Inr (error_payload ''No posts found for analysis''), s)
         else
          (case gather_posts env (store s) ps of
             Inl e \<Rightarrow> (Inl e, s)
           | Inr posts_data \<Rightarrow>
              (let rq = \<lparr>rq_model = model_name, rq_prompt = ChannelContentPrompt (JArr posts_data),
                         rq_temperature = 3, rq_max_tokens = 2000\<rparr>;
                   (response, s1) = send env s rq
               in case response of
                    Inl e \<Rightarrow> (Inr (caught env e), s1)
                  | Inr result \<Rightarrow>
                     (case loads env result of
                        Inr analysis_data \<Rightarrow>
                          add_commit_return env s1
                            (OAnalysis (channel_analysis_row env channel_id analysis_data))
                            analysis_data
                      | Inl e \<Rightarrow>
                          if e = JSONDecodeError then
                            (let analysis_data = JObj [(''analysis'', JStr result)]
                             in add_commit_return env s1
                                  (OAnalysis (channel_analysis_row env channel_id analysis_data))
                                  analysis_data)
                          else (Inr (caught env e), s1)))))"

subsection \<open>Python built-ins used by \<open>generate_content_plan\<close>\<close>

text \<open>\<open>s.split("_")\<close>: the pieces between the underscores, empty pieces included.\<close>

fun split_underscore :: "string \<Rightarrow> string list" where
  "split_underscore [] = [[]]"
| "split_underscore (c # cs) =
     (if c = CHR ''_'' then [] # split_underscore cs
      else (case split_underscore cs of
              [] \<Rightarrow> [[c]]
            | piece # pieces \<Rightarrow> (c # piece) # pieces))"

text \<open>\<open>xs[1]\<close>.\<close>

definition second :: "'a list \<Rightarrow> exn + 'a" where
  "second xs = (case xs of _ # x # _ \<Rightarrow> Inr x | _ \<Rightarrow> Inl IndexError)"

text \<open>
  A Python \<open>str\<close> is a sequence of code points; a \<open>string\<close> here is its UTF-8 encoding.
  \<open>chunks\<close> cuts the bytes into the encodings of the single code points (a byte from 128
  to 191 continues the code point before it) and \<open>code_point\<close> decodes one of them.
\<close>

definition continuation :: "char \<Rightarrow> bool" where
  "continuation c = (128 \<le> (of_char c :: nat) \<and> (of_char c :: nat) < 192)"

fun chunks :: "string \<Rightarrow> string list" where
  "chunks [] = []"
| "chunks (c # cs) =
     (case chunks cs of
        [] \<Rightarrow> [[c]]
      | k # ks \<Rightarrow>
          (case k of
             b # _ \<Rightarrow> if continuation b then (c # k) # ks else [c] # k # ks
           | [] \<Rightarrow> [c] # ks))"

definition code_point :: "string \<Rightarrow> nat" where
  "code_point k =
     (case k of
        [] \<Rightarrow> 0
      | b # bs \<Rightarrow>
          (let n = (of_char b :: nat);
               lead = (if n < 128 then n else if n < 224 then n - 192
                       else if n < 240 then n - 224 else n - 240)
           in foldl (\<lambda>acc c. 64 * acc + ((of_char c :: nat) - 128)) lead bs))"

definition code_points :: "string \<Rightarrow> nat list" where
  "code_points s = map code_point (chunks s)"

text \<open>\<open>str.isspace\<close> of one code point, and \<open>str.strip()\<close>.\<close>

definition is_space :: "nat \<Rightarrow> bool" where
  "is_space cp =
     (cp \<in> set [9, 10, 11, 12, 13, 28, 29, 30, 31, 32, 133, 160, 5760, 8232, 8233, 8239, 8287,
                12288]
      \<or> (8192 \<le> cp \<and> cp \<le> 8202))"

definition strip :: "string \<Rightarrow> string" where
  "strip s =
     concat (rev (dropWhile (\<lambda>k. is_space (code_point k))
                    (rev (dropWhile (\<lambda>k. is_space (code_point k)) (chunks s)))))"

text \<open>
  The code points of the digit zero of every script with decimal digits (Unicode 14); the
  nine code points after each are its digits one to nine.
\<close>

definition digit_zeros :: "nat list" where
  "digit_zeros =
     [48, 1632, 1776, 1984, 2406, 2534, 2662, 2790, 2918, 3046, 3174, 3302, 3430, 3558,
      3664, 3792, 3872, 4160, 4240, 6112, 6160, 6470, 6608, 6784, 6800, 6992, 7088, 7232,
      7248, 42528, 43216, 43264, 43472, 43504, 43600, 44016, 65296, 66720, 68912, 69734,
      69872, 69942, 70096, 70384, 70736, 70864, 71248, 71360, 71472, 71904, 72016, 72784,
      73040, 73120, 92768, 92864, 93008, 120782, 120792, 120802, 120812, 120822, 123200,
      123632, 125264, 130032]"

definition digit_of :: "nat \<Rightarrow> nat option" where
  "digit_of cp =
     (case find (\<lambda>z. z \<le> cp \<and> cp \<le> z + 9) digit_zeros of
        Some z \<Rightarrow> Some (cp - z)
      | None \<Rightarrow> None)"

text \<open>
  \<open>int(s)\<close>: surrounding whitespace is dropped (the separators 28 to 31 are not whitespace
  here), then come an optional sign and decimal digits of any script, where single
  underscores may stand between digits; more than 4300 digits are refused.
\<close>

definition int_space :: "nat \<Rightarrow> bool" where
  "int_space cp = (if 28 \<le> cp \<and> cp \<le> 31 then False else is_space cp)"

text \<open>The values of the digits after the first one.\<close>

fun more_digits :: "nat list \<Rightarrow> nat list option" where
  "more_digits [] = Some []"
| "more_digits [c] = (case digit_of c of Some k \<Rightarrow> Some [k] | None \<Rightarrow> None)"
| "more_digits (c # c' # cs) =
     (if c = 95 then
        (case digit_of c' of
           Some k \<Rightarrow> map_option ((#) k) (more_digits cs)
         | None \<Rightarrow> None)
      else
        (case digit_of c of
           Some k \<Rightarrow> map_option ((#) k) (more_digits (c' # cs))
         | None \<Rightarrow> None))"

definition parse_digits :: "nat list \<Rightarrow> nat option" where
  "parse_digits cps =
     (case cps of
        [] \<Rightarrow> None
      | c # cs \<Rightarrow>
          (case digit_of c of
             None \<Rightarrow> None
           | Some k \<Rightarrow>
               (case more_digits cs of
                  None \<Rightarrow> None
                | Some ks \<Rightarrow>
                    if 4300 < length (k # ks) then None
                    else Some (foldl (\<lambda>acc d. 10 * acc + d) 0 (k # ks)))))"

definition py_int :: "string \<Rightarrow> exn + int" where
  "py_int s =
     (let t = rev (dropWhile int_space (rev (dropWhile int_space (code_points s))));
          r = (case t of
                 [] \<Rightarrow> None
               | c # cs \<Rightarrow>
                   if c = 45 then map_option (\<lambda>n. - int n) (parse_digits cs)
                   else if c = 43 then map_option int (parse_digits cs)
                   else map_option int (parse_digits t))
      in case r of None \<Rightarrow> Inl ValueError | Some i \<Rightarrow> Inr i)"

text \<open>
  \<open>today + timedelta(days=n)\<close>: a \<open>timedelta\<close> holds at most 999999999 days, and the sum
  must stay within the years 1 to 9999.
\<close>

definition us_per_day :: int where
  "us_per_day = 86400000000"

definition add_days :: "datetime \<Rightarrow> int \<Rightarrow> exn + datetime" where
  "add_days today n =
     (if n < - 999999999 \<or> 999999999 < n then Inl OverflowError
      else let t = today + n * us_per_day
           in if 0 \<le> t \<and> t < 3652059 * us_per_day then Inr t else Inl OverflowError)"

text \<open>\<open>v["key"]\<close>: \<open>KeyError\<close> on a dict without the key, \<open>TypeError\<close> on everything that
  is not a dict.\<close>

definition subscript :: "json \<Rightarrow> string \<Rightarrow> exn + json" where
  "subscript v key =
     (case v of
        JObj kvs \<Rightarrow> (case map_of kvs key of Some x \<Rightarrow> Inr x | None \<Rightarrow> Inl (KeyError key))
      | _ \<Rightarrow> Inl TypeError)"

subsection \<open>\<open>generate_content_plan\<close>\<close>

text \<open>The body of the loop over \<open>plan_data.items()\<close>, up to the object handed to
  \<open>db.add\<close>.\<close>

definition content_plan_of ::
  "llm_env \<Rightarrow> int \<Rightarrow> datetime \<Rightarrow> string \<times> json \<Rightarrow> exn + content_plan_row" where
  "content_plan_of env channel_id today item =
     (case second (split_underscore (fst item)) of
        Inl e \<Rightarrow> Inl e
      | Inr piece \<Rightarrow>
         (case py_int piece of
            Inl e \<Rightarrow> Inl e
          | Inr day_num \<Rightarrow>
             (case add_days today (day_num - 1) of
                Inl e \<Rightarrow> Inl e
              | Inr planned_date \<Rightarrow>
                 (case subscript (snd item) ''title'' of
                    Inl e \<Rightarrow> Inl e
                  | Inr title \<Rightarrow>
                     (case subscript (snd item) ''description'' of
                        Inl e \<Rightarrow> Inl e
                      | Inr description \<Rightarrow>
                         Inr \<lparr>cp_id = None, cp_channel_id = channel_id, cp_title = title,
                              cp_description = description, cp_planned_date = planned_date,
                              cp_content = dumps env (snd item), cp_status = ''draft''\<rparr>)))))"

text \<open>The loop: every object built before an exception stays added to the session.\<close>

fun plan_loop ::
  "llm_env \<Rightarrow> int \<Rightarrow> datetime \<Rightarrow> (string \<times> json) list \<Rightarrow> session \<Rightarrow> exn option \<times> session" where
  "plan_loop env channel_id today [] s = (None, s)"
| "plan_loop env channel_id today (item # rest) s =
     (case content_plan_of env channel_id today item of
        Inl e \<Rightarrow> (Some e, s)
      | Inr content_plan \<Rightarrow>
          plan_loop env channel_id today rest (session_add s (OContentPlan content_plan)))"

text \<open>
  The analysis a dependent task starts from: the latest stored one, or a fresh one made
  inline when there is none. Everything here runs before the \<open>try\<close> of the caller.
\<close>

definition upstream_analysis ::
  "llm_env \<Rightarrow> session \<Rightarrow> int \<Rightarrow> (exn + json) \<times> session" where
  "upstream_analysis env s channel_id =
     (case query_latest_analysis env (store s) channel_id of
        Inl e \<Rightarrow> (Inl e, s)
      | Inr None \<Rightarrow> analyze_channel_content env s channel_id
      | Inr (Some analysis) \<Rightarrow>
         (case loads env (a_content analysis) of
            Inl e \<Rightarrow> (Inl e, s)
          | Inr v \<Rightarrow> (Inr v, s)))"

definition generate_content_plan ::
  "llm_env \<Rightarrow> session \<Rightarrow> int \<Rightarrow> int \<Rightarrow> (exn + json) \<times> session" where
  "generate_content_plan env s channel_id days =
     (case upstream_analysis env s channel_id of
        (Inl e, s0) \<Rightarrow> (Inl e, s0)
      | (Inr analysis_data, s0) \<Rightarrow>
         (let rq = \<lparr>rq_model = model_name, rq_prompt = ContentPlanPrompt analysis_data days,
                    rq_temperature = 7, rq_max_tokens = 2500\<rparr>;
              (response, s1) = send env s0 rq
          in case response of
               Inl e \<Rightarrow> (Inr (caught env e), s1)
             | Inr result \<Rightarrow>
                (case loads env result of
                   Inl e \<Rightarrow>
                     if e = JSONDecodeError then (Inr (parse_failure result), s1)
                     else (Inr (caught env e), s1)
                 | Inr (JObj items) \<Rightarrow>
                    (case plan_loop env channel_id (utcnow (db_engine env)) items s1 of
                       (Some e, s2) \<Rightarrow> (Inr (caught env e), s2)
                     | (None, s2) \<Rightarrow>
                        (case session_commit env s2 of
                           Inl e \<Rightarrow> (Inr (caught env e), s2\<lparr>pending := []\<rparr>)
                         | Inr s3 \<Rightarrow>
                            (Inr (JObj [(''success'', JBool True),
                                        (''content_plan'', JObj items)]), s3)))
                 | Inr _ \<Rightarrow> (Inr (caught env AttributeError), s1))))"

subsection \<open>\<open>analyze_post_performance\<close>\<close>

definition post_json ::
  "llm_env \<Rightarrow> post_row \<Rightarrow> comment_row list \<Rightarrow> reaction_row list \<Rightarrow> json" where
  "post_json env post cs rs =
     JObj [(''id'', JInt (p_tg_id post)),
           (''content'', JStr (p_content post)),
           (''posted_at'', JStr (isoformat env (p_posted_at post))),
           (''views'', opt_int (p_views post)),
           (''forwards'', opt_int (p_forwards post)),
           (''comments'',
              JArr (map (\<lambda>c. JObj [(''id'', opt_int (c_id c)), (''content'', JStr (c_content c)),
                                     (''user_id'', opt_int (c_user_id c)),
                                     (''commented_at'', JStr (isoformat env (c_commented_at c)))])
                        cs)),
           (''reactions'', JArr (map reaction_json rs))]"

definition post_analysis_row :: "llm_env \<Rightarrow> int \<Rightarrow> json \<Rightarrow> analysis_row" where
  "post_analysis_row env post_id analysis_data =
     \<lparr>a_id = None, a_channel_id = None, a_post_id = Some post_id,
      a_analysis_type = ''post_performance'', a_content = dumps env analysis_data,
      a_created_at = None\<rparr>"

definition analyze_post_performance ::
  "llm_env \<Rightarrow> session \<Rightarrow> int \<Rightarrow> (exn + json) \<times> session" where
  "analyze_post_performance env s post_id =
     (case query_post env (store s) post_id of
        Inl e \<Rightarrow> (Inl e, s)
      | Inr None \<Rightarrow> (Inr (error_payload ''Post not found''), s)
      | Inr (Some post) \<Rightarrow>
         (case query_comments env (store s) (Some post_id) of
            Inl e \<Rightarrow> (Inl e, s)
          | Inr cs \<Rightarrow>
             (case query_reactions env (store s) (Some post_id) of
                Inl e \<Rightarrow> (Inl e, s)
              | Inr rs \<Rightarrow>
                 (let rq = \<lparr>rq_model = model_name,
                            rq_prompt = PostPerformancePrompt (post_json env post cs rs),
                            rq_temperature = 3, rq_max_tokens = 1500\<rparr>;
                      (response, s1) = send env s rq
                  in case response of
                       Inl e \<Rightarrow> (Inr (caught env e), s1)
                     | Inr result \<Rightarrow>
                        (case loads env result of
                           Inl e \<Rightarrow>
                             if e = JSONDecodeError then (Inr (parse_failure result), s1)
                             else (Inr (caught env e), s1)
                         | Inr analysis_data \<Rightarrow>
                            add_commit_return env s1
                              (OAnalysis (post_analysis_row env post_id analysis_data))
                              analysis_data)))))"

subsection \<open>\<open>generate_survey\<close>\<close>

definition survey_of :: "llm_env \<Rightarrow> int \<Rightarrow> json \<Rightarrow> exn + survey_row" where
  "survey_of env channel_id survey_data =
     (case subscript survey_data ''title'' of
        Inl e \<Rightarrow> Inl e
      | Inr title \<Rightarrow>
         (case subscript survey_data ''description'' of
            Inl e \<Rightarrow> Inl e
          | Inr description \<Rightarrow>
             (case subscript survey_data ''questions'' of
                Inl e \<Rightarrow> Inl e
              | Inr questions \<Rightarrow>
                 Inr \<lparr>s_id = None, s_channel_id = channel_id, s_title = title,
                      s_description = description, s_questions = dumps env questions,
                      s_status = ''draft''\<rparr>)))"

definition generate_survey ::
  "llm_env \<Rightarrow> session \<Rightarrow> int \<Rightarrow> (exn + json) \<times> session" where
  "generate_survey env s channel_id =
     (case upstream_analysis env s channel_id of
        (Inl e, s0) \<Rightarrow> (Inl e, s0)
      | (Inr analysis_data, s0) \<Rightarrow>
         (let rq = \<lparr>rq_model = model_name, rq_prompt = SurveyPrompt analysis_data,
                    rq_temperature = 5, rq_max_tokens = 2000\<rparr>;
              (response, s1) = send env s0 rq
          in case response of
               Inl e \<Rightarrow> (Inr (caught env e), s1)
             | Inr result \<Rightarrow>
                (case loads env result of
                   Inl e \<Rightarrow>
                     if e = JSONDecodeError then (Inr (parse_failure result), s1)
                     else (Inr (caught env e), s1)
                 | Inr survey_data \<Rightarrow>
                    (case survey_of env channel_id survey_data of
                       Inl e \<Rightarrow> (Inr (caught env e), s1)
                     | Inr survey \<Rightarrow>
                        add_commit_return env s1 (OSurvey survey)
                          (JObj [(''success'', JBool True), (''survey'', survey_data)])))))"

section \<open>The conversation controller (src/bot/bot.py)\<close>

subsection \<open>Literals\<close>

text \<open>The UTF-8 bytes of the Russian literal (transliterated: \<open>Analiz kanala\<close>).\<close>

definition label_analyze_channel :: string where
  "label_analyze_channel =
     [CHR 0xD0, CHR 0x90, CHR 0xD0, CHR 0xBD, CHR 0xD0, CHR 0xB0, CHR 0xD0, CHR 0xBB,
      CHR 0xD0, CHR 0xB8, CHR 0xD0, CHR 0xB7, CHR 0x20, CHR 0xD0, CHR 0xBA, CHR 0xD0,
      CHR 0xB0, CHR 0xD0, CHR 0xBD, CHR 0xD0, CHR 0xB0, CHR 0xD0, CHR 0xBB, CHR 0xD0,
      CHR 0xB0]"

text \<open>The UTF-8 bytes of the Russian literal (transliterated: \<open>Generatsiya kontent-plana\<close>).\<close>

definition label_generate_content_plan :: string where
  "label_generate_content_plan =
     [CHR 0xD0, CHR 0x93, CHR 0xD0, CHR 0xB5, CHR 0xD0, CHR 0xBD, CHR 0xD0, CHR 0xB5,
      CHR 0xD1, CHR 0x80, CHR 0xD0, CHR 0xB0, CHR 0xD1, CHR 0x86, CHR 0xD0, CHR 0xB8,
      CHR 0xD1, CHR 0x8F, CHR 0x20, CHR 0xD0, CHR 0xBA, CHR 0xD0, CHR 0xBE, CHR 0xD0,
      CHR 0xBD, CHR 0xD1, CHR 0x82, CHR 0xD0, CHR 0xB5, CHR 0xD0, CHR 0xBD, CHR 0xD1,
      CHR 0x82, CHR 0x2D, CHR 0xD0, CHR 0xBF, CHR 0xD0, CHR 0xBB, CHR 0xD0, CHR 0xB0,
      CHR 0xD0, CHR 0xBD, CHR 0xD0, CHR 0xB0]"

text \<open>The UTF-8 bytes of the Russian literal (transliterated: \<open>Analiz posta\<close>).\<close>

definition label_analyze_post :: string where
  "label_analyze_post =
     [CHR 0xD0, CHR 0x90, CHR 0xD0, CHR 0xBD, CHR 0xD0, CHR 0xB0, CHR 0xD0, CHR 0xBB,
      CHR 0xD0, CHR 0xB8, CHR 0xD0, CHR 0xB7, CHR 0x20, CHR 0xD0, CHR 0xBF, CHR 0xD0,
      CHR 0xBE, CHR 0xD1, CHR 0x81, CHR 0xD1, CHR 0x82, CHR 0xD0, CHR 0xB0]"

text \<open>The UTF-8 bytes of the Russian literal (transliterated: \<open>Sozdat opros\<close>).\<close>

definition label_create_survey :: string where
  "label_create_survey =
     [CHR 0xD0, CHR 0xA1, CHR 0xD0, CHR 0xBE, CHR 0xD0, CHR 0xB7, CHR 0xD0, CHR 0xB4,
      CHR 0xD0, CHR 0xB0, CHR 0xD1, CHR 0x82, CHR 0xD1, CHR 0x8C, CHR 0x20, CHR 0xD0,
      CHR 0xBE, CHR 0xD0, CHR 0xBF, CHR 0xD1, CHR 0x80, CHR 0xD0, CHR 0xBE, CHR 0xD1,
      CHR 0x81]"

text \<open>The UTF-8 bytes of the Russian literal (transliterated: \<open>Da\<close>).\<close>

definition label_yes :: string where
  "label_yes =
     [CHR 0xD0, CHR 0x94, CHR 0xD0, CHR 0xB0]"

text \<open>The UTF-8 bytes of the Russian literal (transliterated: \<open>Net\<close>).\<close>

definition label_no :: string where
  "label_no =
     [CHR 0xD0, CHR 0x9D, CHR 0xD0, CHR 0xB5, CHR 0xD1, CHR 0x82]"

text \<open>The UTF-8 bytes of the Russian literal (transliterated: \<open>Ne ukazano imya kanala\<close>).\<close>

definition msg_no_channel :: string where
  "msg_no_channel =
     [CHR 0xD0, CHR 0x9D, CHR 0xD0, CHR 0xB5, CHR 0x20, CHR 0xD1, CHR 0x83, CHR 0xD0,
      CHR 0xBA, CHR 0xD0, CHR 0xB0, CHR 0xD0, CHR 0xB7, CHR 0xD0, CHR 0xB0, CHR 0xD0,
      CHR 0xBD, CHR 0xD0, CHR 0xBE, CHR 0x20, CHR 0xD0, CHR 0xB8, CHR 0xD0, CHR 0xBC,
      CHR 0xD1, CHR 0x8F, CHR 0x20, CHR 0xD0, CHR 0xBA, CHR 0xD0, CHR 0xB0, CHR 0xD0,
      CHR 0xBD, CHR 0xD0, CHR 0xB0, CHR 0xD0, CHR 0xBB, CHR 0xD0, CHR 0xB0]"

text \<open>The UTF-8 bytes of the Russian literal (transliterated: \<open>Ne ukazan ID posta\<close>).\<close>

definition msg_no_post :: string where
  "msg_no_post =
     [CHR 0xD0, CHR 0x9D, CHR 0xD0, CHR 0xB5, CHR 0x20, CHR 0xD1, CHR 0x83, CHR 0xD0,
      CHR 0xBA, CHR 0xD0, CHR 0xB0, CHR 0xD0, CHR 0xB7, CHR 0xD0, CHR 0xB0, CHR 0xD0,
      CHR 0xBD, CHR 0x20, CHR 0x49, CHR 0x44, CHR 0x20, CHR 0xD0, CHR 0xBF, CHR 0xD0,
      CHR 0xBE, CHR 0xD1, CHR 0x81, CHR 0xD1, CHR 0x82, CHR 0xD0, CHR 0xB0]"

text \<open>The UTF-8 bytes of the Russian literal (transliterated: \<open>Neizvestnoe deystvie\<close>).\<close>

definition msg_unknown_action :: string where
  "msg_unknown_action =
     [CHR 0xD0, CHR 0x9D, CHR 0xD0, CHR 0xB5, CHR 0xD0, CHR 0xB8, CHR 0xD0, CHR 0xB7,
      CHR 0xD0, CHR 0xB2, CHR 0xD0, CHR 0xB5, CHR 0xD1, CHR 0x81, CHR 0xD1, CHR 0x82,
      CHR 0xD0, CHR 0xBD, CHR 0xD0, CHR 0xBE, CHR 0xD0, CHR 0xB5, CHR 0x20, CHR 0xD0,
      CHR 0xB4, CHR 0xD0, CHR 0xB5, CHR 0xD0, CHR 0xB9, CHR 0xD1, CHR 0x81, CHR 0xD1,
      CHR 0x82, CHR 0xD0, CHR 0xB2, CHR 0xD0, CHR 0xB8, CHR 0xD0, CHR 0xB5]"

subsection \<open>State\<close>

text \<open>The states of the \<open>ConversationHandler\<close>; \<open>END\<close> is also the state before \<open>/menu\<close>.\<close>

datatype conv_state =
    MENU
  | ANALYZE_CHANNEL
  | GENERATE_CONTENT_PLAN
  | ANALYZE_POST
  | CREATE_SURVEY
  | WAITING_FOR_CONFIRMATION
  | END

text \<open>\<open>context.user_data\<close>: the three keys the handlers write; \<open>None\<close> is a missing key.\<close>

record user_data =
  ud_channel_username :: "string option"
  ud_post_id :: "int option"
  ud_pending_action :: "string option"

definition empty_user_data :: user_data where
  "empty_user_data = \<lparr>ud_channel_username = None, ud_post_id = None, ud_pending_action = None\<rparr>"

text \<open>An update as Telegram delivers it: a bot command with its name, or a text message.\<close>

datatype update = Command string | Text string

text \<open>The replies, one constructor per message of the source, with the values interpolated
  into it.\<close>

datatype reply =
    StartReply
  | HelpReply
  | MenuReply
  | AskChannelForAnalysis
  | AskChannelForPlan
  | AskPostId
  | AskChannelForSurvey
  | ConfirmAnalysis string
  | ConfirmPlan string
  | ConfirmPost int
  | ConfirmSurvey string
  | BadPostId
  | GenericError
  | Working
  | ErrorReply json
  | SuccessReply string
  | ActionCancelled
  | OperationCancelled
  | UnknownCommand

text \<open>\<open>summary\<close> is the text a \<open>_perform_*\<close> method formats from a result without an
  \<open>error\<close> key; it may raise, inside the method's \<open>try\<close>.\<close>

record bot_env =
  llm :: llm_env
  summary :: "string \<Rightarrow> user_data \<Rightarrow> json \<Rightarrow> exn + string"

record bot_state =
  conv :: conv_state
  data :: user_data
  database :: db
  llm_trace :: "llm_request list"

subsection \<open>The input handlers\<close>

text \<open>\<open>text.strip()\<close> and the removal of one leading \<open>@\<close>.\<close>

definition normalize_channel :: "string \<Rightarrow> string" where
  "normalize_channel text =
     (let channel_username = strip text
      in case channel_username of
           c # cs \<Rightarrow> if c = CHR ''@'' then cs else channel_username
         | [] \<Rightarrow> channel_username)"

definition process_channel_analysis :: "bot_state \<Rightarrow> string \<Rightarrow> reply list \<times> bot_state" where
  "process_channel_analysis st text =
     (let channel_username = normalize_channel text
      in ([ConfirmAnalysis channel_username],
          st\<lparr>data := (data st)\<lparr>ud_channel_username := Some channel_username,
                                 ud_pending_action := Some ''analyze_channel''\<rparr>,
             conv := WAITING_FOR_CONFIRMATION\<rparr>))"

definition process_content_plan :: "bot_state \<Rightarrow> string \<Rightarrow> reply list \<times> bot_state" where
  "process_content_plan st text =
     (let channel_username = normalize_channel text
      in ([ConfirmPlan channel_username],
          st\<lparr>data := (data st)\<lparr>ud_channel_username := Some channel_username,
                                 ud_pending_action := Some ''generate_content_plan''\<rparr>,
             conv := WAITING_FOR_CONFIRMATION\<rparr>))"

definition process_post_analysis :: "bot_state \<Rightarrow> string \<Rightarrow> reply list \<times> bot_state" where
  "process_post_analysis st text =
     (case py_int (strip text) of
        Inl e \<Rightarrow> ([BadPostId], st\<lparr>conv := ANALYZE_POST\<rparr>)
      | Inr post_id \<Rightarrow>
          ([ConfirmPost post_id],
           st\<lparr>data := (data st)\<lparr>ud_post_id := Some post_id,
                                  ud_pending_action := Some ''analyze_post''\<rparr>,
              conv := WAITING_FOR_CONFIRMATION\<rparr>))"

definition process_survey_creation :: "bot_state \<Rightarrow> string \<Rightarrow> reply list \<times> bot_state" where
  "process_survey_creation st text =
     (let channel_username = normalize_channel text
      in ([ConfirmSurvey channel_username],
          st\<lparr>data := (data st)\<lparr>ud_channel_username := Some channel_username,
                                 ud_pending_action := Some ''create_survey''\<rparr>,
             conv := WAITING_FOR_CONFIRMATION\<rparr>))"

subsection \<open>The \<open>_perform_*\<close> methods\<close>

text \<open>What a \<open>_perform_*\<close> method returns: \<open>{"error": v}\<close> or \<open>{"message": m}\<close>.\<close>

datatype perform_result = Failure json | Message string

fun contains_str :: "string \<Rightarrow> string \<Rightarrow> bool" where
  "contains_str p [] = (p = [])"
| "contains_str p (c # cs) = (take (length p) (c # cs) = p \<or> contains_str p cs)"

text \<open>\<open>"error" in result\<close>: a key of a dict, an element of a list, a substring of a string,
  \<open>TypeError\<close> on the rest.\<close>

definition has_error :: "json \<Rightarrow> exn + bool" where
  "has_error result =
     (case result of
        JObj kvs \<Rightarrow> Inr (''error'' \<in> set (map fst kvs))
      | JArr xs \<Rightarrow> Inr (JStr ''error'' \<in> set xs)
      | JStr t \<Rightarrow> Inr (contains_str ''error'' t)
      | _ \<Rightarrow> Inl TypeError)"

text \<open>From the orchestrator's answer to the method's result, all inside the method's
  \<open>try ... except Exception\<close>.\<close>

definition report ::
  "bot_env \<Rightarrow> string \<Rightarrow> user_data \<Rightarrow> exn + json \<Rightarrow> perform_result" where
  "report benv action ud answer =
     (case answer of
        Inl e \<Rightarrow> Failure (JStr (exc_str (llm benv) e))
      | Inr result \<Rightarrow>
         (case has_error result of
            Inl e \<Rightarrow> Failure (JStr (exc_str (llm benv) e))
          | Inr True \<Rightarrow>
             (case subscript result ''error'' of
                Inl e \<Rightarrow> Failure (JStr (exc_str (llm benv) e))
              | Inr v \<Rightarrow> Failure v)
          | Inr False \<Rightarrow>
             (case summary benv action ud result of
                Inl e \<Rightarrow> Failure (JStr (exc_str (llm benv) e))
              | Inr m \<Rightarrow> Message m)))"

text \<open>\<open>SessionLocal()\<close>: a new session on the shared database. What the session has only
  added is lost with it.\<close>

definition open_session :: "bot_state \<Rightarrow> session" where
  "open_session st = \<lparr>store = database st, pending = [], calls = llm_trace st\<rparr>"

definition close_session :: "bot_state \<Rightarrow> session \<Rightarrow> bot_state" where
  "close_session st s = st\<lparr>database := store s, llm_trace := calls s\<rparr>"

text \<open>The channel id is the constant 1 in all three channel tasks.\<close>

definition perform_channel_analysis :: "bot_env \<Rightarrow> bot_state \<Rightarrow> perform_result \<times> bot_state" where
  "perform_channel_analysis benv st =
     (if falsy_str (ud_channel_username (data st)) then (Failure (JStr msg_no_channel), st)
      else
        (let (answer, s) = analyze_channel_content (llm benv) (open_session st) 1
         in (report benv ''analyze_channel'' (data st) answer, close_session st s)))"

definition perform_content_plan_generation ::
  "bot_env \<Rightarrow> bot_state \<Rightarrow> perform_result \<times> bot_state" where
  "perform_content_plan_generation benv st =
     (if falsy_str (ud_channel_username (data st)) then (Failure (JStr msg_no_channel), st)
      else
        (let (answer, s) = generate_content_plan (llm benv) (open_session st) 1 7
         in (report benv ''generate_content_plan'' (data st) answer, close_session st s)))"

definition perform_post_analysis :: "bot_env \<Rightarrow> bot_state \<Rightarrow> perform_result \<times> bot_state" where
  "perform_post_analysis benv st =
     (case ud_post_id (data st) of
        None \<Rightarrow> (Failure (JStr msg_no_post), st)
      | Some post_id \<Rightarrow>
          if post_id = 0 then (Failure (JStr msg_no_post), st)
          else
            (let (answer, s) = analyze_post_performance (llm benv) (open_session st) post_id
             in (report benv ''analyze_post'' (data st) answer, close_session st s)))"

definition perform_survey_creation :: "bot_env \<Rightarrow> bot_state \<Rightarrow> perform_result \<times> bot_state" where
  "perform_survey_creation benv st =
     (if falsy_str (ud_channel_username (data st)) then (Failure (JStr msg_no_channel), st)
      else
        (let (answer, s) = generate_survey (llm benv) (open_session st) 1
         in (report benv ''create_survey'' (data st) answer, close_session st s)))"

subsection \<open>Confirmation and cancellation\<close>

definition confirm_action :: "bot_env \<Rightarrow> bot_state \<Rightarrow> reply list \<times> bot_state" where
  "confirm_action benv st =
     (if falsy_str (ud_pending_action (data st)) then ([GenericError], st\<lparr>conv := END\<rparr>)
      else
        (let action = (case ud_pending_action (data st) of Some a \<Rightarrow> a | None \<Rightarrow> []);
             (result, st1) =
               (if action = ''analyze_channel'' then perform_channel_analysis benv st
                else if action = ''generate_content_plan''
                  then perform_content_plan_generation benv st
                else if action = ''analyze_post'' then perform_post_analysis benv st
                else if action = ''create_survey'' then perform_survey_creation benv st
                else (Failure (JStr msg_unknown_action), st))
         in (case result of
               Failure v \<Rightarrow> ([Working, ErrorReply v], st1\<lparr>conv := END\<rparr>)
             | Message m \<Rightarrow> ([Working, SuccessReply m], st1\<lparr>conv := END\<rparr>))))"

definition cancel_action :: "bot_state \<Rightarrow> reply list \<times> bot_state" where
  "cancel_action st = ([ActionCancelled], st\<lparr>conv := END\<rparr>)"

definition cancel :: "bot_state \<Rightarrow> reply list \<times> bot_state" where
  "cancel st = ([OperationCancelled], st\<lparr>conv := END\<rparr>)"

subsection \<open>Dispatch\<close>

text \<open>\<open>filters.Regex("^label$")\<close>: \<open>$\<close> also matches before a final newline.\<close>

definition matches :: "string \<Rightarrow> string \<Rightarrow> bool" where
  "matches label text = (text = label \<or> text = label @ [CHR 0x0A])"

text \<open>The fallbacks of the conversation, then the handler for unknown commands.\<close>

definition fallback :: "bot_state \<Rightarrow> string \<Rightarrow> reply list \<times> bot_state" where
  "fallback st name = (if name = ''cancel'' then cancel st else ([UnknownCommand], st))"

text \<open>
  One update. \<open>/start\<close> and \<open>/help\<close> are registered before the conversation and never
  reach it; \<open>/menu\<close> enters the conversation only when none is running; a text no handler
  of the current state accepts is dropped.
\<close>

definition handle_update :: "bot_env \<Rightarrow> bot_state \<Rightarrow> update \<Rightarrow> reply list \<times> bot_state" where
  "handle_update benv st upd =
     (case upd of
        Command name \<Rightarrow>
          if name = ''start'' then ([StartReply], st)
          else if name = ''help'' then ([HelpReply], st)
          else if conv st = END then
            (if name = ''menu'' then ([MenuReply], st\<lparr>conv := MENU\<rparr>)
             else ([UnknownCommand], st))
          else fallback st name
      | Text text \<Rightarrow>
          (case conv st of
             END \<Rightarrow> ([], st)
           | MENU \<Rightarrow>
               if matches label_analyze_channel text
                 then ([AskChannelForAnalysis], st\<lparr>conv := ANALYZE_CHANNEL\<rparr>)
               else if matches label_generate_content_plan text
                 then ([AskChannelForPlan], st\<lparr>conv := GENERATE_CONTENT_PLAN\<rparr>)
               else if matches label_analyze_post text
                 then ([AskPostId], st\<lparr>conv := ANALYZE_POST\<rparr>)
               else if matches label_create_survey text
                 then ([AskChannelForSurvey], st\<lparr>conv := CREATE_SURVEY\<rparr>)
               else ([], st)
           | ANALYZE_CHANNEL \<Rightarrow> process_channel_analysis st text
           | GENERATE_CONTENT_PLAN \<Rightarrow> process_content_plan st text
           | ANALYZE_POST \<Rightarrow> process_post_analysis st text
           | CREATE_SURVEY \<Rightarrow> process_survey_creation st text
           | WAITING_FOR_CONFIRMATION \<Rightarrow>
               if matches label_yes text then confirm_action benv st
               else if matches label_no text then cancel_action st
               else ([], st)))"

text \<open>A run of updates, the replies in order.\<close>

fun run_updates :: "bot_env \<Rightarrow> bot_state \<Rightarrow> update list \<Rightarrow> reply list \<times> bot_state" where
  "run_updates benv st [] = ([], st)"
| "run_updates benv st (upd # rest) =
     (let (rs, st1) = handle_update benv st upd;
          (rs', st2) = run_updates benv st1 rest
      in (rs @ rs', st2))"

section \<open>Vocabulary of the properties\<close>

text \<open>The merge keys the data model names: external id and channel id of a Post, external
  id of a User.\<close>

definition post_keys :: "db \<Rightarrow> (int \<times> int) list" where
  "post_keys d = map (\<lambda>p. (p_tg_id p, p_channel_id p)) (posts d)"

definition user_keys :: "db \<Rightarrow> int list" where
  "user_keys d = map u_tg_id (users d)"

text \<open>The two foreign keys of every stored Reaction, in storage order.\<close>

definition reaction_targets :: "db \<Rightarrow> (int option \<times> int option) list" where
  "reaction_targets d = map (\<lambda>r. (r_post_id r, r_comment_id r)) (reactions d)"

fun pending_post_keys :: "orm_obj list \<Rightarrow> (int \<times> int) list" where
  "pending_post_keys [] = []"
| "pending_post_keys (OPost p # os) = (p_tg_id p, p_channel_id p) # pending_post_keys os"
| "pending_post_keys (_ # os) = pending_post_keys os"

fun pending_reaction_targets :: "orm_obj list \<Rightarrow> (int option \<times> int option) list" where
  "pending_reaction_targets [] = []"
| "pending_reaction_targets (OReaction r # os) =
     (r_post_id r, r_comment_id r) # pending_reaction_targets os"
| "pending_reaction_targets (_ # os) = pending_reaction_targets os"

fun pending_comments :: "orm_obj list \<Rightarrow> comment_row list" where
  "pending_comments [] = []"
| "pending_comments (OComment c # os) = c # pending_comments os"
| "pending_comments (_ # os) = pending_comments os"

text \<open>The day number a key of the plan stands for, when it has one.\<close>

definition day_number :: "string \<Rightarrow> int option" where
  "day_number key =
     (case second (split_underscore key) of
        Inl e \<Rightarrow> None
      | Inr piece \<Rightarrow> (case py_int piece of Inl e \<Rightarrow> None | Inr n \<Rightarrow> Some n))"

text \<open>The rows that the loop of \<open>generate_content_plan\<close> builds from the items of a plan:
  one for every item whose row can be built.\<close>

definition planned_rows ::
  "llm_env \<Rightarrow> int \<Rightarrow> datetime \<Rightarrow> (string \<times> json) list \<Rightarrow> content_plan_row list" where
  "planned_rows env channel_id today items =
     concat (map (\<lambda>item. case content_plan_of env channel_id today item of
                            Inl e \<Rightarrow> []
                          | Inr row \<Rightarrow> [row]) items)"

text \<open>What an operation returns when it has caught \<open>e\<close>: the dictionary
  \<open>{"error": str(e)}\<close>, as a value.\<close>

definition error_dict :: "llm_env \<Rightarrow> exn \<Rightarrow> exn + json" where
  "error_dict env e = Inr (JObj [(''error'', JStr (exc_str env e))])"

text \<open>The requests of the four tasks.\<close>

definition plan_request :: "json \<Rightarrow> int \<Rightarrow> llm_request" where
  "plan_request analysis_data days =
     \<lparr>rq_model = model_name, rq_prompt = ContentPlanPrompt analysis_data days,
      rq_temperature = 7, rq_max_tokens = 2500\<rparr>"

definition survey_request :: "json \<Rightarrow> llm_request" where
  "survey_request analysis_data =
     \<lparr>rq_model = model_name, rq_prompt = SurveyPrompt analysis_data,
      rq_temperature = 5, rq_max_tokens = 2000\<rparr>"

definition channel_request :: "json list \<Rightarrow> llm_request" where
  "channel_request posts_data =
     \<lparr>rq_model = model_name, rq_prompt = ChannelContentPrompt (JArr posts_data),
      rq_temperature = 3, rq_max_tokens = 2000\<rparr>"

definition post_request :: "json \<Rightarrow> llm_request" where
  "post_request post_data =
     \<lparr>rq_model = model_name, rq_prompt = PostPerformancePrompt post_data,
      rq_temperature = 3, rq_max_tokens = 1500\<rparr>"

section \<open>Concrete inputs\<close>

text \<open>2024-01-01T00:00:00.\<close>

definition ex_now :: datetime where
  "ex_now = 738885 * us_per_day"

text \<open>An engine that accepts every query and every flush.\<close>

definition ex_engine :: engine where
  "ex_engine = \<lparr>query_fault = (\<lambda>q. None), commit_fault = (\<lambda>obs. None), utcnow = ex_now\<rparr>"

text \<open>An engine that refuses every flush.\<close>

definition ex_engine_full :: engine where
  "ex_engine_full =
     \<lparr>query_fault = (\<lambda>q. None), commit_fault = (\<lambda>obs. Some (External ''disk full'')),
      utcnow = ex_now\<rparr>"

text \<open>An engine whose queries fail.\<close>

definition ex_engine_down :: engine where
  "ex_engine_down =
     \<lparr>query_fault = (\<lambda>q. Some (External ''database is locked'')),
      commit_fault = (\<lambda>obs. None), utcnow = ex_now\<rparr>"

definition thumbs_up :: string where
  "thumbs_up = [CHR 0xF0, CHR 0x9F, CHR 0x91, CHR 0x8D]"

definition ex_alice :: tg_user where
  "ex_alice =
     \<lparr>tu_id = 42, tu_username = Some ''alice'', tu_first_name = Some ''Alice'',
      tu_last_name = None\<rparr>"

text \<open>One post with one reaction.\<close>

definition ex_message :: tg_message where
  "ex_message =
     \<lparr>m_id = 7, m_date = ex_now, m_message = Some ''hello'', m_views = Some 10,
      m_forwards = Some 0,
      m_reactions = Some [\<lparr>rc_reaction = ReactionEmoji thumbs_up, rc_count = 3\<rparr>],
      m_from_id = None\<rparr>"

text \<open>A reply with one reaction, written by the given peer.\<close>

definition ex_reply :: "int \<Rightarrow> int \<Rightarrow> tg_message" where
  "ex_reply i author =
     \<lparr>m_id = i, m_date = ex_now, m_message = Some ''nice'', m_views = None,
      m_forwards = None,
      m_reactions = Some [\<lparr>rc_reaction = ReactionCustomEmoji 5, rc_count = 1\<rparr>],
      m_from_id = Some (PeerUser author)\<rparr>"

text \<open>
  A client that knows one channel and one user (42). Post 7 has a reply by an author who
  cannot be resolved and a reply by user 42; every other post has two replies by user 42.
\<close>

definition ex_client :: tg_client where
  "ex_client =
     \<lparr>get_entity =
        (\<lambda>r. case r of
                ByUsername n \<Rightarrow> Inr (EChannel 100)
              | ByPeer p \<Rightarrow> if p = PeerUser 42 then Inr (EUser ex_alice)
                            else Inl (External ''no such peer'')),
      get_history = (\<lambda>entity limit offset_date. Inr [ex_message]),
      get_messages_ids = (\<lambda>entity i. Inr (Some (ex_message\<lparr>m_id := i\<rparr>))),
      get_messages_reply_to =
        (\<lambda>entity i limit. if i = 7 then Inr [ex_reply 11 99, ex_reply 12 42]
                           else Inr [ex_reply 21 42, ex_reply 22 42])\<rparr>"

definition ex_collector :: collector where
  "ex_collector = \<lparr>client = Some ex_client, channel_username = ''testchan''\<rparr>"

text \<open>The same client on a longer history: a post, a service message without text, and a
  second post.\<close>

definition ex_history :: "tg_message list" where
  "ex_history =
     [ex_message,
      ex_message\<lparr>m_id := 8, m_message := None, m_reactions := None\<rparr>,
      ex_message\<lparr>m_id := 9, m_message := Some ''again'', m_reactions := None\<rparr>]"

definition ex_busy_client :: tg_client where
  "ex_busy_client = ex_client\<lparr>get_history := (\<lambda>entity limit offset_date. Inr ex_history)\<rparr>"

definition ex_busy_collector :: collector where
  "ex_busy_collector = \<lparr>client = Some ex_busy_client, channel_username = ''testchan''\<rparr>"

text \<open>A plan of one day and a plan of three days, as parsed responses.\<close>

definition ex_day :: "string \<Rightarrow> json" where
  "ex_day title = JObj [(''title'', JStr title), (''description'', JStr ''about'')]"

definition ex_plan1 :: "(string \<times> json) list" where
  "ex_plan1 = [(''day_1'', ex_day ''one'')]"

text \<open>A plan whose second key has no day number.\<close>

definition ex_plan_bad :: "(string \<times> json) list" where
  "ex_plan_bad = [(''day_1'', ex_day ''one''), (''someday'', ex_day ''two'')]"

definition ex_plan3 :: "(string \<times> json) list" where
  "ex_plan3 = [(''day_1'', ex_day ''one''), (''day_2'', ex_day ''two''),
               (''day_3'', ex_day ''three'')]"

definition ex_analysis :: json where
  "ex_analysis = JObj [(''main_topics'', JArr [JStr ''news''])]"

text \<open>A text of a hundred thousand opening brackets: \<open>json.loads\<close> gives up on it with
  \<open>RecursionError\<close> before it finds it is not JSON.\<close>

definition deep_text :: string where
  "deep_text = replicate 100000 (CHR ''['')"

text \<open>A parser that knows these texts and rejects the rest.\<close>

definition ex_loads :: "string \<Rightarrow> exn + json" where
  "ex_loads t =
     (if t = deep_text then Inl RecursionError
      else if t = ''plan1'' then Inr (JObj ex_plan1)
      else if t = ''plan3'' then Inr (JObj ex_plan3)
      else if t = ''plan_bad'' then Inr (JObj ex_plan_bad)
      else if t = ''stored'' then Inr ex_analysis
      else Inl JSONDecodeError)"

definition ex_exc_str :: "exn \<Rightarrow> string" where
  "ex_exc_str e =
     (case e of
        External m \<Rightarrow> m
      | RecursionError \<Rightarrow>
          ''maximum recursion depth exceeded while decoding a JSON array from a unicode string''
      | IndexError \<Rightarrow> ''list index out of range''
      | _ \<Rightarrow> ''exception'')"

text \<open>The environment of the orchestrator around a given model and engine.\<close>

definition ex_env :: "engine \<Rightarrow> (llm_request \<Rightarrow> exn + string) \<Rightarrow> llm_env" where
  "ex_env eng model =
     \<lparr>db_engine = eng, acreate = model, loads = ex_loads, dumps = (\<lambda>v. ''stored''),
      isoformat = (\<lambda>t. ''2024-01-01T00:00:00''), exc_str = ex_exc_str\<rparr>"

text \<open>A database with one stored post of channel 1, one with that post and a channel
  analysis, and one with the analysis only.\<close>

definition ex_db_posts :: db where
  "ex_db_posts =
     empty_db\<lparr>posts := [\<lparr>p_id = Some 1, p_tg_id = 7, p_channel_id = 1, p_content = ''hello'',
                          p_posted_at = ex_now, p_views = Some 10, p_forwards = Some 0\<rparr>]\<rparr>"

definition ex_db_both :: db where
  "ex_db_both =
     ex_db_posts\<lparr>analyses := [\<lparr>a_id = Some 1, a_channel_id = Some 1, a_post_id = None,
                                a_analysis_type = ''channel_content'', a_content = ''stored'',
                                a_created_at = Some ex_now\<rparr>]\<rparr>"

definition ex_db_analysed :: db where
  "ex_db_analysed =
     empty_db\<lparr>analyses := [\<lparr>a_id = Some 1, a_channel_id = Some 1, a_post_id = None,
                             a_analysis_type = ''channel_content'', a_content = ''stored'',
                             a_created_at = Some ex_now\<rparr>]\<rparr>"

definition fresh_session :: "db \<Rightarrow> session" where
  "fresh_session d = \<lparr>store = d, pending = [], calls = []\<rparr>"

text \<open>The bot before its first conversation, on an empty database.\<close>

definition ex_bot_env :: bot_env where
  "ex_bot_env =
     \<lparr>llm = ex_env ex_engine (\<lambda>rq. Inr ''text''), summary = (\<lambda>action ud result. Inr ''done'')\<rparr>"

definition ex_bot_state :: bot_state where
  "ex_bot_state = \<lparr>conv = END, data = empty_user_data, database = empty_db, llm_trace = []\<rparr>"


section \<open>Properties of the collector\<close>

subsection \<open>What a commit stores\<close>

lemma flush_user_keys:
  "user_keys (fold (\<lambda>ob acc. flush_obj now acc ob) obs d) =
     user_keys d @ pending_user_tg_ids obs"
  unfolding user_keys_def
proof (induction obs arbitrary: d)
  case Nil
  show ?case by simp
next
  case (Cons ob rest)
  show ?case by (cases ob) (simp_all add: Cons.IH)
qed

lemma flush_post_keys:
  "post_keys (fold (\<lambda>ob acc. flush_obj now acc ob) obs d) =
     post_keys d @ pending_post_keys obs"
  unfolding post_keys_def
proof (induction obs arbitrary: d)
  case Nil
  show ?case by simp
next
  case (Cons ob rest)
  show ?case by (cases ob) (simp_all add: Cons.IH)
qed

lemma flush_reaction_targets:
  "reaction_targets (fold (\<lambda>ob acc. flush_obj now acc ob) obs d) =
     reaction_targets d @ pending_reaction_targets obs"
  unfolding reaction_targets_def
proof (induction obs arbitrary: d)
  case Nil
  show ?case by simp
next
  case (Cons ob rest)
  show ?case by (cases ob) (simp_all add: Cons.IH)
qed

lemma commit_user_keys:
  assumes "commit eng d obs = Inr d'"
  shows "user_keys d' = user_keys d @ pending_user_tg_ids obs"
    and "distinct (user_keys d) \<Longrightarrow> distinct (user_keys d')"
proof -
  from assms have ok: "\<not> unique_violation d obs"
    and d': "d' = fold (\<lambda>ob acc. flush_obj (utcnow eng) acc ob) obs d"
    by (auto simp: commit_def split: option.splits if_splits)
  show keys: "user_keys d' = user_keys d @ pending_user_tg_ids obs"
    by (simp add: d' flush_user_keys)
  assume "distinct (user_keys d)"
  with ok keys show "distinct (user_keys d')"
    by (auto simp: unique_violation_def user_keys_def Let_def list_ex_iff split: if_splits)
qed

lemma commit_post_keys:
  "commit eng d obs = Inr d' \<Longrightarrow> post_keys d' = post_keys d @ pending_post_keys obs"
  by (auto simp: commit_def flush_post_keys split: option.splits if_splits)

lemma commit_reaction_targets:
  "commit eng d obs = Inr d' \<Longrightarrow>
     reaction_targets d' = reaction_targets d @ pending_reaction_targets obs"
  by (auto simp: commit_def flush_reaction_targets split: option.splits if_splits)

lemma reaction_targets_append [simp]:
  "pending_reaction_targets (xs @ ys) = pending_reaction_targets xs @ pending_reaction_targets ys"
  by (induction xs rule: pending_reaction_targets.induct) simp_all

lemma post_keys_append [simp]:
  "pending_post_keys (xs @ ys) = pending_post_keys xs @ pending_post_keys ys"
  by (induction xs rule: pending_post_keys.induct) simp_all

lemma save_reactions_post_keys [simp]:
  "pending_post_keys (save_reactions message entity) = []"
  by (cases "m_reactions message") (simp_all add: save_reactions_def, induct_tac a, simp_all)

text \<open>The loop of \<open>get_posts\<close> adds one Post and returns one dictionary for every message
  with text, in the order of the history.\<close>

lemma posts_loop_keys:
  "pending_post_keys (snd (posts_loop entity messages)) =
     map (\<lambda>m. (m_id m, entity_id entity)) (filter (\<lambda>m. \<not> falsy_str (m_message m)) messages)"
  by (induction messages)
     (auto simp: Let_def post_of_message_def split: option.splits prod.splits)

lemma posts_loop_ids:
  "map pd_id (fst (posts_loop entity messages)) =
     map m_id (filter (\<lambda>m. \<not> falsy_str (m_message m)) messages)"
  by (induction messages) (auto simp: Let_def split: option.splits prod.splits)


lemma pending_user_tg_ids_append [simp]:
  "pending_user_tg_ids (xs @ ys) = pending_user_tg_ids xs @ pending_user_tg_ids ys"
  by (induction xs rule: pending_user_tg_ids.induct) simp_all

lemma pending_comments_append [simp]:
  "pending_comments (xs @ ys) = pending_comments xs @ pending_comments ys"
  by (induction xs rule: pending_comments.induct) simp_all

lemma save_reactions_users [simp]:
  "pending_user_tg_ids (save_reactions message entity) = []"
  by (cases "m_reactions message") (simp_all add: save_reactions_def, induct_tac a, simp_all)

lemma save_reactions_comments [simp]:
  "pending_comments (save_reactions message entity) = []"
  by (cases "m_reactions message") (simp_all add: save_reactions_def, induct_tac a, simp_all)

lemma posts_loop_users: "pending_user_tg_ids (snd (posts_loop entity messages)) = []"
  by (induction messages) (auto simp: Let_def split: option.splits prod.splits)

lemma save_reactions_targets:
  "set (pending_reaction_targets
          (save_reactions message (OPost (post_of_message entity message text))))
     \<subseteq> {(None, None)}"
  "set (pending_reaction_targets
          (save_reactions message (OComment (comment_of_reply post_id message text user_info))))
     \<subseteq> {(None, None)}"
  by (cases "m_reactions message";
      simp add: save_reactions_def reaction_model_def post_of_message_def comment_of_reply_def;
      induct_tac a; simp)+

lemma posts_loop_targets:
  "set (pending_reaction_targets (snd (posts_loop entity messages))) \<subseteq> {(None, None)}"
proof (induction messages)
  case Nil
  show ?case by simp
next
  case (Cons message rest)
  show ?case
    using Cons.IH save_reactions_targets(1) [of message entity]
    by (auto simp: Let_def split: option.splits prod.splits)
qed

lemma comments_loop_targets:
  "set (pending_reaction_targets (snd (comments_loop cl post_id replies))) \<subseteq> {(None, None)}"
proof (induction replies)
  case Nil
  show ?case by simp
next
  case (Cons reply rest)
  show ?case
    using Cons.IH save_reactions_targets(2) [of reply post_id]
    by (auto simp: Let_def split: option.splits prod.splits)
qed

text \<open>A run either leaves the database as it was or commits what its loop added.\<close>

lemma get_posts_run:
  assumes "get_posts self eng d username limit offset_date = (r, d')"
  obtains "d' = d"
  | entity messages where
      "commit eng d (snd (posts_loop entity messages)) = Inr d'"
      "r = Inr (fst (posts_loop entity messages))"
  using assms unfolding get_posts_def Let_def
  by (auto split: option.splits sum.splits prod.splits) (metis fst_conv snd_conv)+

lemma get_comments_run:
  assumes "get_comments self eng d username post_id limit = (r, d')"
  obtains "d' = d"
  | cl pid replies where
      "commit eng d (snd (comments_loop cl pid replies)) = Inr d'"
      "r = Inr (fst (comments_loop cl pid replies))"
  using assms unfolding get_comments_def Let_def
  by (auto split: option.splits sum.splits prod.splits if_splits) (metis fst_conv snd_conv)+

text \<open>Every Reaction row that a run of the collector stores has neither foreign key
  set.\<close>

lemma get_posts_reaction_targets:
  "set (reaction_targets (snd (get_posts self eng d username limit offset_date)))
     \<subseteq> set (reaction_targets d) \<union> {(None, None)}"
proof (cases "get_posts self eng d username limit offset_date")
  case (Pair r d')
  then show ?thesis
  proof (cases rule: get_posts_run)
    case 1
    with Pair show ?thesis by auto
  next
    case (2 entity messages)
    from commit_reaction_targets [OF 2(1)] posts_loop_targets [of entity messages] Pair
    show ?thesis by auto
  qed
qed

lemma get_comments_reaction_targets:
  "set (reaction_targets (snd (get_comments self eng d username post_id limit)))
     \<subseteq> set (reaction_targets d) \<union> {(None, None)}"
proof (cases "get_comments self eng d username post_id limit")
  case (Pair r d')
  then show ?thesis
  proof (cases rule: get_comments_run)
    case 1
    with Pair show ?thesis by auto
  next
    case (2 cl pid replies)
    from commit_reaction_targets [OF 2(1)] comments_loop_targets [of cl pid replies] Pair
    show ?thesis by auto
  qed
qed

text \<open>
  The loop over the replies is best effort: a lookup that raises gives no author, and every
  reply with text yields a Comment, with the user id of its author or \<open>None\<close>.
\<close>

lemma resolve_author_failure:
  "m_from_id reply = Some p \<Longrightarrow> get_entity cl (ByPeer p) = Inl e \<Longrightarrow>
     resolve_author cl reply = None"
  by (simp add: resolve_author_def)

lemma comments_loop_comments:
  "map (\<lambda>c. (c_tg_id c, c_user_id c)) (pending_comments (snd (comments_loop cl post_id replies))) =
     map (\<lambda>r. (m_id r, map_option tu_id (resolve_author cl r)))
       (filter (\<lambda>r. \<not> falsy_str (m_message r)) replies)"
  by (induction replies)
     (auto simp: Let_def comment_of_reply_def split: option.splits prod.splits)

lemmas ex_defs = ex_now_def ex_engine_def thumbs_up_def ex_alice_def ex_message_def ex_reply_def
  ex_client_def ex_collector_def empty_db_def

lemmas collector_defs = get_posts_def get_comments_def commit_def unique_violation_def
  save_reactions_def reaction_model_def post_of_message_def comment_of_reply_def
  resolve_author_def db_user_of_def next_id_def chosen_username_def or_default_def Let_def

subsection \<open>Merge keys of users and posts\<close>

text \<open>
  Claim C2, as amended. Collection never stores two User rows with the same external id:
  whatever \<open>get_comments\<close> does to a database whose users have distinct external ids, they
  are distinct afterwards, and \<open>get_posts\<close> leaves the users alone. Post rows are not merged:
  a run of \<open>get_posts\<close> that returns has fetched a history, returns one dictionary for every
  message of it that has text, and has appended one Post row for every such message, with
  the id of the message and the id of the channel entity, whatever was stored already.
\<close>

theorem collection_merge_keys:
  "(distinct (user_keys d) \<longrightarrow>
      distinct (user_keys (snd (get_comments self eng d username post_id limit))))
   \<and> (client self = Some cl \<and>
       get_entity cl (ByUsername (chosen_username self username)) = Inr entity \<and>
       get_history cl entity limit offset_date = Inr messages \<and>
       get_posts self eng d username limit offset_date = (Inr ps, d') \<longrightarrow>
        user_keys d' = user_keys d \<and>
        map pd_id ps = map m_id (filter (\<lambda>m. \<not> falsy_str (m_message m)) messages) \<and>
        post_keys d' =
          post_keys d @
          map (\<lambda>m. (m_id m, entity_id entity))
            (filter (\<lambda>m. \<not> falsy_str (m_message m)) messages))"
proof (intro conjI impI)
  assume unique: "distinct (user_keys d)"
  obtain r d1 where run: "get_comments self eng d username post_id limit = (r, d1)"
    by (cases "get_comments self eng d username post_id limit")
  from run have "distinct (user_keys d1)"
  proof (cases rule: get_comments_run)
    case 1
    with unique show ?thesis by simp
  next
    case (2 cl pid replies)
    with unique show ?thesis by (simp add: commit_user_keys(2))
  qed
  with run show "distinct (user_keys (snd (get_comments self eng d username post_id limit)))"
    by simp
next
  assume run: "client self = Some cl \<and>
       get_entity cl (ByUsername (chosen_username self username)) = Inr entity \<and>
       get_history cl entity limit offset_date = Inr messages \<and>
       get_posts self eng d username limit offset_date = (Inr ps, d')"
  then have ps: "ps = fst (posts_loop entity messages)"
    and d': "commit eng d (snd (posts_loop entity messages)) = Inr d'"
    by (auto simp: get_posts_def Let_def split: sum.splits prod.splits)
  from commit_user_keys(1) [OF d'] show "user_keys d' = user_keys d"
    by (simp add: posts_loop_users)
  show "map pd_id ps = map m_id (filter (\<lambda>m. \<not> falsy_str (m_message m)) messages)"
    by (simp add: ps posts_loop_ids)
  from commit_post_keys [OF d']
  show "post_keys d' =
          post_keys d @
          map (\<lambda>m. (m_id m, entity_id entity))
            (filter (\<lambda>m. \<not> falsy_str (m_message m)) messages)"
    by (simp add: posts_loop_keys)
qed

text \<open>
  Claim C2, as stated, fails for Post rows: collecting the one-message history of the
  example channel twice, from an empty database, stores two rows with the same external id
  and channel id.
\<close>

theorem posts_duplicated_on_recollection:
  "\<not> distinct (post_keys (snd (get_posts ex_collector ex_engine
        (snd (get_posts ex_collector ex_engine empty_db None 100 None)) None 100 None)))"
  by (simp add: collector_defs ex_defs post_keys_def)

text \<open>
  The amended claim C2 at a concrete input: the replies of post 7 (one author unresolved,
  one resolved) collected into the empty database, and the history of two posts around a
  service message collected into a database that holds the first post already.
\<close>

theorem collection_merge_keys_witness:
  "distinct (user_keys (snd (get_comments ex_busy_collector ex_engine empty_db None (Some 7) 100)))
   \<and> map_sum id (map pd_id) (fst (get_posts ex_busy_collector ex_engine
         (snd (get_posts ex_collector ex_engine empty_db None 100 None)) None 100 None)) =
       Inr [7, 9]
   \<and> post_keys (snd (get_posts ex_busy_collector ex_engine
         (snd (get_posts ex_collector ex_engine empty_db None 100 None)) None 100 None)) =
       [(7, 100), (7, 100), (9, 100)]"
proof -
  let ?d = "snd (get_posts ex_collector ex_engine empty_db None 100 None)"
  let ?run = "get_posts ex_busy_collector ex_engine ?d None 100 None"
  have unique: "distinct (user_keys empty_db)"
    by (simp add: user_keys_def empty_db_def)
  have cl: "client ex_busy_collector = Some ex_busy_client"
    by (simp add: ex_busy_collector_def)
  have entity: "get_entity ex_busy_client (ByUsername (chosen_username ex_busy_collector None)) =
                  Inr (EChannel 100)"
    by (simp add: ex_busy_client_def ex_client_def)
  have history: "get_history ex_busy_client (EChannel 100) 100 None = Inr ex_history"
    by (simp add: ex_busy_client_def)
  have "\<exists>ps. fst ?run = Inr ps"
    by (simp add: collector_defs ex_defs ex_busy_collector_def ex_busy_client_def ex_history_def)
  then obtain ps where returned: "fst ?run = Inr ps"
    by blast
  then have run: "?run = (Inr ps, snd ?run)"
    by (simp add: prod_eq_iff)
  have before: "post_keys ?d = [(7, 100)]"
    by (simp add: collector_defs ex_defs post_keys_def)
  have texts: "filter (\<lambda>m. \<not> falsy_str (m_message m)) ex_history =
                 [ex_message, ex_message\<lparr>m_id := 9, m_message := Some ''again'',
                                           m_reactions := None\<rparr>]"
    by (simp add: ex_history_def ex_message_def)
  have ids: "m_id ex_message = 7"
    by (simp add: ex_message_def)
  from collection_merge_keys
         [of empty_db ex_busy_collector ex_engine None "Some 7" 100]
       unique
  have users: "distinct (user_keys
                 (snd (get_comments ex_busy_collector ex_engine empty_db None (Some 7) 100)))"
    by simp
  from collection_merge_keys
         [of ?d ex_busy_collector ex_engine None None 100 ex_busy_client "EChannel 100" None
             ex_history ps "snd ?run"]
       cl entity history run
  have "map pd_id ps = [7, 9]" and "post_keys (snd ?run) = [(7, 100), (7, 100), (9, 100)]"
    by (simp_all add: texts ids before)
  with users returned show ?thesis
    by simp
qed

subsection \<open>Foreign keys of the stored reactions\<close>

text \<open>
  Claim C3 says that every Reaction row the collector stores has exactly one of
  \<open>post_id\<close> and \<open>comment_id\<close> set. The code reads \<open>entity.id\<close> of a Post or Comment
  that was added to the session and not flushed, so both are \<open>None\<close>: on the example
  channel the reaction of the post and the reactions of the two replies are all stored with
  neither key.
\<close>

theorem collected_reactions_unattached:
  "reaction_targets (snd (get_posts ex_collector ex_engine empty_db None 100 None)) =
     [(None, None)]
   \<and> reaction_targets (snd (get_comments ex_collector ex_engine empty_db None (Some 7) 100)) =
     [(None, None), (None, None)]"
  by (simp add: collector_defs ex_defs reaction_targets_def)

subsection \<open>Users of the collected comments\<close>

text \<open>
  Claim C8 says that a reply whose author resolves has the User upserted and that collection
  goes on. The code hands \<open>db.merge\<close> an object without primary key, which is an insert: two
  replies by the same author make the commit violate the unique constraint on
  \<open>users.tg_id\<close>, so \<open>get_comments\<close> raises and stores neither user nor comments.
\<close>

theorem same_author_twice_aborts:
  "get_comments ex_collector ex_engine empty_db None (Some 8) 100 =
     (Inl IntegrityError, empty_db)"
  by (simp add: collector_defs ex_defs)

section \<open>Properties of the orchestrator\<close>

lemmas orchestrator_defs = analyze_channel_content_def generate_content_plan_def
  analyze_post_performance_def generate_survey_def upstream_analysis_def
  query_posts_def query_comments_def query_reactions_def query_latest_analysis_def
  query_post_def run_query_def order_desc_def send_def add_commit_return_def
  session_commit_def session_add_def caught_def error_payload_def parse_failure_def
  channel_analysis_row_def post_analysis_row_def plan_request_def survey_request_def
  channel_request_def post_request_def

lemmas ex_orchestrator_defs = ex_env_def ex_engine_def ex_engine_down_def ex_engine_full_def
  ex_loads_def ex_exc_str_def ex_db_posts_def ex_db_analysed_def ex_db_both_def
  fresh_session_def empty_db_def ex_plan1_def ex_plan3_def ex_plan_bad_def ex_day_def
  ex_analysis_def ex_now_def

lemma deep_text_differs [simp]:
  "length t \<noteq> 100000 \<Longrightarrow> (t = deep_text) = False"
  by (auto simp: deep_text_def)

subsection \<open>A channel without posts\<close>

text \<open>
  Claim C4. When the store answers the query for the channel's posts and the channel has no
  stored post, \<open>analyze_channel_content\<close> returns the dictionary
  \<open>{"error": "No posts found for analysis"}\<close> as a value, and the session is what it was:
  no Analysis row stored or added, no request sent to the model.
\<close>

theorem analysis_without_posts:
  assumes "query_fault (db_engine env) (QPostsOfChannel channel_id) = None"
    and "filter (\<lambda>p. p_channel_id p = channel_id) (posts (store s)) = []"
  shows "analyze_channel_content env s channel_id =
           (Inr (JObj [(''error'', JStr ''No posts found for analysis'')]), s)"
  using assms
  by (simp add: analyze_channel_content_def query_posts_def run_query_def order_desc_def
        error_payload_def)

text \<open>Claim C4 on the empty database.\<close>

theorem analysis_without_posts_witness:
  "query_fault (db_engine (ex_env ex_engine (\<lambda>rq. Inr ''text''))) (QPostsOfChannel 1) = None
   \<and> filter (\<lambda>p. p_channel_id p = 1) (posts (store (fresh_session empty_db))) = []
   \<and> analyze_channel_content (ex_env ex_engine (\<lambda>rq. Inr ''text'')) (fresh_session empty_db) 1 =
       (Inr (JObj [(''error'', JStr ''No posts found for analysis'')]), fresh_session empty_db)"
proof -
  have a: "query_fault (db_engine (ex_env ex_engine (\<lambda>rq. Inr ''text''))) (QPostsOfChannel 1)
             = None"
    by (simp add: ex_env_def ex_engine_def)
  have b: "filter (\<lambda>p. p_channel_id p = 1) (posts (store (fresh_session empty_db))) = []"
    by (simp add: fresh_session_def empty_db_def)
  from analysis_without_posts [OF a b] a b show ?thesis by simp
qed

subsection \<open>A response of the analysis that is not JSON\<close>

text \<open>
  Claim C7, as amended. Let the posts of the channel be gathered and the model answer with a
  text. When \<open>json.loads\<close> raises \<open>JSONDecodeError\<close> on it and the engine accepts the flush,
  \<open>analyze_channel_content\<close> returns the text wrapped under the single key \<open>analysis\<close>, and
  exactly one Analysis row was appended: of type \<open>channel_content\<close>, for this channel,
  holding that payload. When \<open>json.loads\<close> raises another exception \<open>e\<close>, the operation
  returns \<open>{"error": str(e)}\<close> and neither stores nor adds anything.
\<close>

theorem malformed_analysis_is_stored:
  assumes "pending s = []"
    and "query_posts env (store s) channel_id = Inr ps" and "ps \<noteq> []"
    and "gather_posts env (store s) ps = Inr posts_data"
    and "acreate env (channel_request posts_data) = Inr result"
  shows "(loads env result = Inl JSONDecodeError \<and>
          commit_fault (db_engine env)
            [OAnalysis (channel_analysis_row env channel_id
               (JObj [(''analysis'', JStr result)]))] = None \<longrightarrow>
            fst (analyze_channel_content env s channel_id) =
              Inr (JObj [(''analysis'', JStr result)])
          \<and> (\<exists>a. analyses (store (snd (analyze_channel_content env s channel_id))) =
                     analyses (store s) @ [a]
                 \<and> a_analysis_type a = ''channel_content''
                 \<and> a_channel_id a = Some channel_id
                 \<and> a_content a = dumps env (JObj [(''analysis'', JStr result)])))
       \<and> (loads env result = Inl e \<and> e \<noteq> JSONDecodeError \<longrightarrow>
            fst (analyze_channel_content env s channel_id) =
              Inr (JObj [(''error'', JStr (exc_str env e))])
          \<and> store (snd (analyze_channel_content env s channel_id)) = store s
          \<and> pending (snd (analyze_channel_content env s channel_id)) = [])"
  using assms
  by (simp add: analyze_channel_content_def send_def add_commit_return_def session_commit_def
        session_add_def commit_def unique_violation_def channel_request_def
        channel_analysis_row_def caught_def error_payload_def or_default_def Let_def)

text \<open>
  Claim C7, as stated, fails: a response of a hundred thousand opening brackets is not
  JSON, yet \<open>json.loads\<close> raises \<open>RecursionError\<close> on it, which the inner handler does
  not catch:
  the operation returns an error and stores no Analysis row.
\<close>

theorem deep_response_is_not_wrapped:
  "fst (analyze_channel_content (ex_env ex_engine (\<lambda>rq. Inr deep_text))
          (fresh_session ex_db_posts) 1) =
     Inr (JObj [(''error'', JStr
       ''maximum recursion depth exceeded while decoding a JSON array from a unicode string'')])
   \<and> analyses (store (snd (analyze_channel_content (ex_env ex_engine (\<lambda>rq. Inr deep_text))
          (fresh_session ex_db_posts) 1))) = []"
  by (simp add: orchestrator_defs ex_env_def ex_engine_def ex_loads_def ex_exc_str_def
        ex_db_posts_def fresh_session_def empty_db_def)

text \<open>The amended claim C7 on a channel with one post: a model that answers in prose, and
  a model that answers with the hundred thousand brackets.\<close>

theorem malformed_analysis_is_stored_witness:
  "fst (analyze_channel_content (ex_env ex_engine (\<lambda>rq. Inr ''Sorry, no JSON today''))
          (fresh_session ex_db_posts) 1) =
     Inr (JObj [(''analysis'', JStr ''Sorry, no JSON today'')])
   \<and> (\<exists>a. analyses (store (snd (analyze_channel_content
                 (ex_env ex_engine (\<lambda>rq. Inr ''Sorry, no JSON today''))
                 (fresh_session ex_db_posts) 1))) = [a]
          \<and> a_analysis_type a = ''channel_content'')
   \<and> store (snd (analyze_channel_content (ex_env ex_engine (\<lambda>rq. Inr deep_text))
          (fresh_session ex_db_posts) 1)) = ex_db_posts"
proof -
  let ?prose = "ex_env ex_engine (\<lambda>rq. Inr ''Sorry, no JSON today'')"
  let ?deep = "ex_env ex_engine (\<lambda>rq. Inr deep_text)"
  let ?s = "fresh_session ex_db_posts"
  let ?ps = "[\<lparr>p_id = Some 1, p_tg_id = 7, p_channel_id = 1, p_content = ''hello'',
               p_posted_at = ex_now, p_views = Some 10, p_forwards = Some 0\<rparr>]"
  let ?data = "[channel_post_json ?prose (hd ?ps) [] []]"
  have 1: "pending ?s = []"
    by (simp add: fresh_session_def)
  have 2: "query_posts ?prose (store ?s) 1 = Inr ?ps" "query_posts ?deep (store ?s) 1 = Inr ?ps"
    by (simp_all add: orchestrator_defs ex_orchestrator_defs)
  have 3: "?ps \<noteq> []"
    by simp
  have 4: "gather_posts ?prose (store ?s) ?ps = Inr ?data"
    "gather_posts ?deep (store ?s) ?ps = Inr ?data"
    by (simp_all add: orchestrator_defs ex_orchestrator_defs channel_post_json_def)
  have 5: "acreate ?prose (channel_request ?data) = Inr ''Sorry, no JSON today''"
    "acreate ?deep (channel_request ?data) = Inr deep_text"
    by (simp_all add: ex_env_def)
  have 6: "loads ?prose ''Sorry, no JSON today'' = Inl JSONDecodeError"
    "loads ?deep deep_text = Inl RecursionError"
    by (simp_all add: ex_env_def ex_loads_def)
  have 7: "commit_fault (db_engine ?prose)
             [OAnalysis (channel_analysis_row ?prose 1
                (JObj [(''analysis'', JStr ''Sorry, no JSON today'')]))] = None"
    by (simp add: ex_env_def ex_engine_def)
  have 8: "analyses (store ?s) = []" "store ?s = ex_db_posts"
    by (simp_all add: fresh_session_def ex_db_posts_def empty_db_def)
  from malformed_analysis_is_stored [OF 1 2(1) 3 4(1) 5(1)]
       malformed_analysis_is_stored [OF 1 2(2) 3 4(2) 5(2), where e = RecursionError]
       6 7 8
  show ?thesis
    by auto
qed

subsection \<open>A response of the content plan that is not JSON\<close>

lemma analyze_keeps_plans:
  assumes "analyze_channel_content env s channel_id = (r, s')" and "pending s = []"
  shows "content_plans (store s') = content_plans (store s)" and "pending s' = []"
  using assms
  by (auto simp: analyze_channel_content_def send_def add_commit_return_def session_commit_def
        session_add_def commit_def Let_def
      split: sum.splits if_splits option.splits)

lemma upstream_keeps_plans:
  assumes "upstream_analysis env s channel_id = (r, s')" and "pending s = []"
  shows "content_plans (store s') = content_plans (store s)" and "pending s' = []"
  using assms analyze_keeps_plans [of env s channel_id r s']
  by (auto simp: upstream_analysis_def split: sum.splits option.splits)

text \<open>
  Claim C5, as amended. In a fresh session, when the upstream analysis is at hand and
  \<open>json.loads\<close> raises on the model's answer to the plan request, no ContentPlan row is
  stored or left added to the session. When it raises \<open>JSONDecodeError\<close>,
  \<open>generate_content_plan\<close> returns a dictionary with the keys \<open>error\<close> and \<open>raw_response\<close>,
  the latter carrying the text; when it raises another exception \<open>e\<close>, the dictionary is
  \<open>{"error": str(e)}\<close>, without the text.
\<close>

theorem malformed_plan_is_reported:
  assumes "pending s = []"
    and "upstream_analysis env s channel_id = (Inr analysis_data, s0)"
    and "acreate env (plan_request analysis_data days) = Inr result"
    and "loads env result = Inl e"
  shows "(e = JSONDecodeError \<longrightarrow>
            fst (generate_content_plan env s channel_id days) =
              Inr (JObj [(''error'', JStr ''Failed to parse response as JSON''),
                         (''raw_response'', JStr result)]))
         \<and> (e \<noteq> JSONDecodeError \<longrightarrow>
              fst (generate_content_plan env s channel_id days) =
                Inr (JObj [(''error'', JStr (exc_str env e))]))
         \<and> content_plans (store (snd (generate_content_plan env s channel_id days))) =
             content_plans (store s)
         \<and> pending (snd (generate_content_plan env s channel_id days)) = []"
  using assms upstream_keeps_plans [of env s channel_id "Inr analysis_data" s0]
  by (simp add: generate_content_plan_def send_def parse_failure_def plan_request_def
        caught_def error_payload_def Let_def)

text \<open>
  Claim C5, as stated, fails: the response of a hundred thousand opening brackets is not
  JSON, and the dictionary returned for it has no \<open>raw_response\<close> key.
\<close>

theorem deep_response_has_no_raw_text:
  "fst (generate_content_plan (ex_env ex_engine (\<lambda>rq. Inr deep_text))
          (fresh_session ex_db_analysed) 1 3) =
     Inr (JObj [(''error'', JStr
       ''maximum recursion depth exceeded while decoding a JSON array from a unicode string'')])"
  by (simp add: orchestrator_defs ex_env_def ex_engine_def ex_loads_def ex_exc_str_def
        ex_db_analysed_def fresh_session_def empty_db_def)

text \<open>The amended claim C5 on a channel with a stored analysis and a model that answers
  in prose.\<close>

theorem malformed_plan_is_reported_witness:
  "fst (generate_content_plan (ex_env ex_engine (\<lambda>rq. Inr ''Day one: rest.''))
          (fresh_session ex_db_analysed) 1 3) =
     Inr (JObj [(''error'', JStr ''Failed to parse response as JSON''),
                (''raw_response'', JStr ''Day one: rest.'')])
   \<and> content_plans (store (snd (generate_content_plan
          (ex_env ex_engine (\<lambda>rq. Inr ''Day one: rest.'')) (fresh_session ex_db_analysed) 1 3))) = []"
proof -
  let ?env = "ex_env ex_engine (\<lambda>rq. Inr ''Day one: rest.'')"
  let ?s = "fresh_session ex_db_analysed"
  have 1: "pending ?s = []"
    by (simp add: fresh_session_def)
  have 2: "upstream_analysis ?env ?s 1 = (Inr ex_analysis, ?s)"
    by (simp add: orchestrator_defs ex_env_def ex_engine_def ex_loads_def ex_db_analysed_def
          fresh_session_def empty_db_def)
  have 3: "acreate ?env (plan_request ex_analysis 3) = Inr ''Day one: rest.''"
    by (simp add: ex_env_def)
  have 4: "loads ?env ''Day one: rest.'' = Inl JSONDecodeError"
    by (simp add: ex_env_def ex_loads_def)
  have 5: "content_plans (store ?s) = []"
    by (simp add: fresh_session_def ex_db_analysed_def empty_db_def)
  from malformed_plan_is_reported [OF 1 2 3 4] 5 show ?thesis
    by simp
qed

subsection \<open>An upstream analysis that returns an error\<close>

lemma plan_loop_calls:
  "plan_loop env channel_id today items s = (r, s') \<Longrightarrow> calls s' = calls s"
  by (induction items arbitrary: s) (auto simp: session_add_def split: sum.splits)

lemma session_commit_calls:
  "session_commit env s = Inr s' \<Longrightarrow> calls s' = calls s"
  by (auto simp: session_commit_def split: sum.splits)

lemma add_commit_return_calls:
  "calls (snd (add_commit_return env s ob payload)) = calls s"
  by (auto simp: add_commit_return_def session_commit_def session_add_def split: sum.splits)

text \<open>
  Claim C10. When no \<open>channel_content\<close> analysis is stored and the inline
  \<open>analyze_channel_content\<close> returns a payload, an error payload included, both dependent
  tasks go on: the next request sent to the model is the task's own, with that payload
  embedded in the prompt.
\<close>

theorem upstream_error_is_embedded:
  assumes "query_latest_analysis env (store s) channel_id = Inr None"
    and "analyze_channel_content env s channel_id = (Inr payload, s0)"
  shows "calls (snd (generate_content_plan env s channel_id days)) =
           calls s0 @ [plan_request payload days]
         \<and> calls (snd (generate_survey env s channel_id)) =
             calls s0 @ [survey_request payload]"
proof
  have up: "upstream_analysis env s channel_id = (Inr payload, s0)"
    using assms by (simp add: upstream_analysis_def)
  show "calls (snd (generate_content_plan env s channel_id days)) =
          calls s0 @ [plan_request payload days]"
    by (auto simp: generate_content_plan_def up send_def plan_request_def Let_def
          dest!: plan_loop_calls session_commit_calls
          split: sum.splits option.splits json.splits prod.splits)
  show "calls (snd (generate_survey env s channel_id)) = calls s0 @ [survey_request payload]"
    by (auto simp: generate_survey_def up send_def survey_request_def add_commit_return_calls
          Let_def split: sum.splits option.splits)
qed

text \<open>Claim C10 on the empty database, where the inline analysis returns
  \<open>{"error": "No posts found for analysis"}\<close>.\<close>

theorem upstream_error_is_embedded_witness:
  "calls (snd (generate_content_plan (ex_env ex_engine (\<lambda>rq. Inr ''plan3''))
                 (fresh_session empty_db) 1 3)) =
     [plan_request (JObj [(''error'', JStr ''No posts found for analysis'')]) 3]
   \<and> calls (snd (generate_survey (ex_env ex_engine (\<lambda>rq. Inr ''plan3''))
                   (fresh_session empty_db) 1)) =
     [survey_request (JObj [(''error'', JStr ''No posts found for analysis'')])]"
proof -
  let ?env = "ex_env ex_engine (\<lambda>rq. Inr ''plan3'')"
  let ?s = "fresh_session empty_db"
  have 1: "query_latest_analysis ?env (store ?s) 1 = Inr None"
    by (simp add: orchestrator_defs ex_env_def ex_engine_def fresh_session_def empty_db_def)
  have 2: "analyze_channel_content ?env ?s 1 =
             (Inr (JObj [(''error'', JStr ''No posts found for analysis'')]), ?s)"
    by (simp add: orchestrator_defs ex_env_def ex_engine_def fresh_session_def empty_db_def)
  have 3: "calls ?s = []"
    by (simp add: fresh_session_def)
  from upstream_error_is_embedded [OF 1 2] 3 show ?thesis
    by simp
qed

subsection \<open>The rows of a content plan\<close>

lemma add_days_value:
  "add_days today k = Inr t \<Longrightarrow> t = today + k * us_per_day"
  by (auto simp: add_days_def Let_def split: if_splits)

lemma content_plan_of_ok:
  assumes "day_number (fst item) = Some n"
    and "add_days today (n - 1) = Inr t"
    and "subscript (snd item) ''title'' = Inr title"
    and "subscript (snd item) ''description'' = Inr description"
  shows "content_plan_of env channel_id today item =
           Inr \<lparr>cp_id = None, cp_channel_id = channel_id, cp_title = title,
                cp_description = description, cp_planned_date = t,
                cp_content = dumps env (snd item), cp_status = ''draft''\<rparr>"
  using assms
  by (auto simp: content_plan_of_def day_number_def split: sum.splits)

text \<open>Items that all carry a day number, a valid date, a title and a description all
  build a row.\<close>

lemma items_build_rows:
  assumes "map (\<lambda>item. day_number (fst item)) items = map Some ns"
    and "\<forall>n \<in> set ns. \<exists>t. add_days today (n - 1) = Inr t"
    and "\<forall>item \<in> set items. \<exists>title description.
           subscript (snd item) ''title'' = Inr title \<and> title \<noteq> JNull \<and>
           subscript (snd item) ''description'' = Inr description"
  shows "\<exists>rows. map (content_plan_of env channel_id today) items = map Inr rows
               \<and> map (\<lambda>r. (cp_planned_date r, cp_status r)) rows =
                   map (\<lambda>n. (today + (n - 1) * us_per_day, ''draft'')) ns
               \<and> (\<forall>r \<in> set rows. cp_title r \<noteq> JNull)"
  using assms
proof (induction items arbitrary: ns)
  case Nil
  then show ?case by (intro exI [of _ "[]"]) simp
next
  case (Cons item rest)
  from Cons.prems(1) obtain n ns' where ns: "ns = n # ns'"
    and n: "day_number (fst item) = Some n"
    and rest: "map (\<lambda>item. day_number (fst item)) rest = map Some ns'"
    by (cases ns) auto
  from Cons.prems(2) ns obtain t where t: "add_days today (n - 1) = Inr t"
    by auto
  from Cons.prems(3) obtain title description where
    title: "subscript (snd item) ''title'' = Inr title" "title \<noteq> JNull" and
    description: "subscript (snd item) ''description'' = Inr description"
    by auto
  let ?row = "\<lparr>cp_id = None, cp_channel_id = channel_id, cp_title = title,
               cp_description = description, cp_planned_date = t,
               cp_content = dumps env (snd item), cp_status = ''draft''\<rparr>"
  have row: "content_plan_of env channel_id today item = Inr ?row"
    by (rule content_plan_of_ok [OF n t title(1) description])
  from Cons.prems ns have "\<forall>n \<in> set ns'. \<exists>t. add_days today (n - 1) = Inr t"
    and "\<forall>item \<in> set rest. \<exists>title description.
           subscript (snd item) ''title'' = Inr title \<and> title \<noteq> JNull \<and>
           subscript (snd item) ''description'' = Inr description"
    by auto
  from Cons.IH [OF rest this] obtain rows where
    built: "map (content_plan_of env channel_id today) rest = map Inr rows"
    and dates: "map (\<lambda>r. (cp_planned_date r, cp_status r)) rows =
                  map (\<lambda>n. (today + (n - 1) * us_per_day, ''draft'')) ns'"
    and titles: "\<forall>r \<in> set rows. cp_title r \<noteq> JNull"
    by blast
  show ?case
  proof (intro exI [of _ "?row # rows"] conjI)
    show "map (content_plan_of env channel_id today) (item # rest) = map Inr (?row # rows)"
      by (simp add: row built)
    show "map (\<lambda>r. (cp_planned_date r, cp_status r)) (?row # rows) =
            map (\<lambda>n. (today + (n - 1) * us_per_day, ''draft'')) ns"
      using add_days_value [OF t] by (simp add: ns dates)
    show "\<forall>r \<in> set (?row # rows). cp_title r \<noteq> JNull"
      using titles title(2) by simp
  qed
qed

text \<open>The loop adds the rows it builds, up to the first item that raises, and touches
  neither the store nor the trace.\<close>

lemma plan_loop_builds:
  "map (content_plan_of env channel_id today) items = map Inr rows \<Longrightarrow>
     plan_loop env channel_id today items s =
       (None, s\<lparr>pending := pending s @ map OContentPlan rows\<rparr>)"
proof (induction items arbitrary: rows s)
  case Nil
  then show ?case by simp
next
  case (Cons item rest)
  then obtain row rows' where "rows = row # rows'"
    and "content_plan_of env channel_id today item = Inr row"
    and "map (content_plan_of env channel_id today) rest = map Inr rows'"
    by (cases rows) auto
  with Cons.IH [of rows' "session_add s (OContentPlan row)"] show ?case
    by (simp add: session_add_def)
qed

lemma plan_loop_raises:
  assumes "map (content_plan_of env channel_id today) before = map Inr rows"
    and "content_plan_of env channel_id today item = Inl e"
  shows "plan_loop env channel_id today (before @ item # after) s =
           (Some e, s\<lparr>pending := pending s @ map OContentPlan rows\<rparr>)"
  using assms
proof (induction before arbitrary: rows s)
  case Nil
  then show ?case by simp
next
  case (Cons first rest)
  then obtain row rows' where "rows = row # rows'"
    and "content_plan_of env channel_id today first = Inr row"
    and "map (content_plan_of env channel_id today) rest = map Inr rows'"
    by (cases rows) auto
  with Cons.IH [of rows' "session_add s (OContentPlan row)"] Cons.prems(2) show ?case
    by (simp add: session_add_def)
qed

lemma plan_loop_store:
  "plan_loop env channel_id today items s = (r, s') \<Longrightarrow> store s' = store s"
  by (induction items arbitrary: s) (auto simp: session_add_def split: sum.splits)

lemma plan_loop_built:
  "plan_loop env channel_id today items s = (None, s') \<Longrightarrow>
     \<exists>rows. map (content_plan_of env channel_id today) items = map Inr rows
          \<and> pending s' = pending s @ map OContentPlan rows"
proof (induction items arbitrary: s)
  case Nil
  then show ?case by simp
next
  case (Cons item rest)
  then obtain row where row: "content_plan_of env channel_id today item = Inr row"
    and loop: "plan_loop env channel_id today rest (session_add s (OContentPlan row)) =
                 (None, s')"
    by (auto split: sum.splits)
  from Cons.IH [OF loop] obtain rows where
    "map (content_plan_of env channel_id today) rest = map Inr rows"
    "pending s' = pending (session_add s (OContentPlan row)) @ map OContentPlan rows"
    by auto
  with row show ?case
    by (intro exI [of _ "row # rows"]) (simp add: session_add_def)
qed

lemma planned_rows_built:
  "map (content_plan_of env channel_id today) items = map Inr rows \<Longrightarrow>
     planned_rows env channel_id today items = rows"
  unfolding planned_rows_def
proof (induction items arbitrary: rows)
  case Nil
  then show ?case by simp
next
  case (Cons item rest)
  then show ?case by (cases rows) auto
qed

lemma flush_content_plans:
  "\<exists>new. content_plans (fold (\<lambda>ob acc. flush_obj now acc ob) (map OContentPlan rows) d) =
            content_plans d @ new
         \<and> length new = length rows
         \<and> map (\<lambda>r. (cp_planned_date r, cp_status r)) new =
             map (\<lambda>r. (cp_planned_date r, cp_status r)) rows"
proof (induction rows arbitrary: d)
  case Nil
  show ?case by simp
next
  case (Cons row rest)
  let ?row = "row\<lparr>cp_id := Some (next_id (map cp_id (content_plans d)))\<rparr>"
  from Cons.IH [of "d\<lparr>content_plans := content_plans d @ [?row]\<rparr>"]
  obtain new where
    "content_plans (fold (\<lambda>ob acc. flush_obj now acc ob) (map OContentPlan rest)
        (d\<lparr>content_plans := content_plans d @ [?row]\<rparr>)) = (content_plans d @ [?row]) @ new"
    and "length new = length rest"
    and "map (\<lambda>r. (cp_planned_date r, cp_status r)) new =
           map (\<lambda>r. (cp_planned_date r, cp_status r)) rest"
    by auto
  then show ?case
    by (intro exI [of _ "?row # new"]) simp
qed

lemma content_plans_accepted:
  "pending_user_tg_ids (map OContentPlan rows) = []"
  "list_ex null_violation (map OContentPlan rows) = (\<exists>r \<in> set rows. cp_title r = JNull)"
  by (induction rows) auto

text \<open>A commit of content plan rows stores all of them or none.\<close>

lemma commit_content_plans:
  "commit eng d (map OContentPlan rows) = Inr d' \<Longrightarrow>
     \<exists>new. content_plans d' = content_plans d @ new \<and> length new = length rows
          \<and> map (\<lambda>r. (cp_planned_date r, cp_status r)) new =
              map (\<lambda>r. (cp_planned_date r, cp_status r)) rows"
  using flush_content_plans [of "utcnow eng" rows d]
  by (auto simp: commit_def split: option.splits if_splits)

lemma plan_all_or_nothing:
  assumes up: "upstream_analysis env s channel_id = (Inr analysis_data, s0)"
    and fresh: "pending s0 = []"
    and changed: "content_plans (store (snd (generate_content_plan env s channel_id days))) \<noteq>
                    content_plans (store s0)"
  shows "\<exists>result items new.
           acreate env (plan_request analysis_data days) = Inr result
         \<and> loads env result = Inr (JObj items)
         \<and> fst (generate_content_plan env s channel_id days) =
             Inr (JObj [(''success'', JBool True), (''content_plan'', JObj items)])
         \<and> content_plans (store (snd (generate_content_plan env s channel_id days))) =
             content_plans (store s0) @ new
         \<and> length new = length items"
proof -
  let ?s1 = "s0\<lparr>calls := calls s0 @ [plan_request analysis_data days]\<rparr>"
  let ?today = "utcnow (db_engine env)"
  have run: "generate_content_plan env s channel_id days =
        (case acreate env (plan_request analysis_data days) of
           Inl e \<Rightarrow> (Inr (caught env e), ?s1)
         | Inr result \<Rightarrow>
            (case loads env result of
               Inl e \<Rightarrow>
                 if e = JSONDecodeError then (Inr (parse_failure result), ?s1)
                 else (Inr (caught env e), ?s1)
             | Inr (JObj items) \<Rightarrow>
                (case plan_loop env channel_id ?today items ?s1 of
                   (Some e, s2) \<Rightarrow> (Inr (caught env e), s2)
                 | (None, s2) \<Rightarrow>
                    (case session_commit env s2 of
                       Inl e \<Rightarrow> (Inr (caught env e), s2\<lparr>pending := []\<rparr>)
                     | Inr s3 \<Rightarrow>
                        (Inr (JObj [(''success'', JBool True),
                                    (''content_plan'', JObj items)]), s3)))
             | Inr _ \<Rightarrow> (Inr (caught env AttributeError), ?s1)))"
    unfolding generate_content_plan_def up send_def plan_request_def Let_def by simp
  from changed obtain result where result: "acreate env (plan_request analysis_data days) = Inr result"
    by (cases "acreate env (plan_request analysis_data days)") (auto simp: run)
  from changed result obtain items where items: "loads env result = Inr (JObj items)"
    by (cases "loads env result"; cases "projr (loads env result)")
       (auto simp: run split: if_splits)
  obtain r s2 where loop: "plan_loop env channel_id ?today items ?s1 = (r, s2)"
    by (cases "plan_loop env channel_id ?today items ?s1")
  from plan_loop_store [OF loop] have store2: "store s2 = store s0"
    by simp
  from changed result items loop store2 have none: "r = None"
    by (cases r) (auto simp: run)
  from plan_loop_built [OF loop [unfolded none]] fresh obtain rows where
    rows: "map (content_plan_of env channel_id ?today) items = map Inr rows"
    and pending2: "pending s2 = map OContentPlan rows"
    by auto
  from changed result items loop none store2 obtain d where
    d: "commit (db_engine env) (store s0) (map OContentPlan rows) = Inr d"
    and final: "generate_content_plan env s channel_id days =
                  (Inr (JObj [(''success'', JBool True), (''content_plan'', JObj items)]),
                   s2\<lparr>store := d, pending := []\<rparr>)"
    by (cases "commit (db_engine env) (store s0) (map OContentPlan rows)")
       (auto simp: run session_commit_def pending2)
  from commit_content_plans [OF d] obtain new where
    "content_plans d = content_plans (store s0) @ new" "length new = length rows"
    by blast
  moreover from rows have "length rows = length items"
    by (metis length_map)
  ultimately show ?thesis
    using result items final by auto
qed

text \<open>
  Claim C6, as amended. Let the upstream analysis be at hand and nothing be pending. When
  the model's answer parses to an object whose keys all carry a day number \<open>n\<close> (the text
  between the first and the second underscore, read by \<open>int\<close>) with \<open>today + (n - 1)\<close> days a
  valid date, whose values all have a non-null \<open>title\<close> and a \<open>description\<close>, and the engine
  accepts the flush of the rows built from them, then \<open>generate_content_plan\<close> returns
  \<open>{"success": True, "content_plan": ...}\<close> and has committed one new ContentPlan row per
  key, in the order of the keys, with planned date \<open>today + (n - 1)\<close> days and status
  \<open>draft\<close>. The rows are committed together: whenever the operation has stored any
  ContentPlan row at all, it has succeeded and stored one row for every key of the parsed
  plan. The rows follow the keys of the response; \<open>days\<close> only occurs in the prompt.
\<close>

theorem content_plan_rows:
  assumes up: "upstream_analysis env s channel_id = (Inr analysis_data, s0)"
    and fresh: "pending s0 = []"
  shows "(acreate env (plan_request analysis_data days) = Inr result \<and>
          loads env result = Inr (JObj items) \<and>
          map (\<lambda>item. day_number (fst item)) items = map Some ns \<and>
          (\<forall>n \<in> set ns. \<exists>t. add_days (utcnow (db_engine env)) (n - 1) = Inr t) \<and>
          (\<forall>item \<in> set items. \<exists>title description.
             subscript (snd item) ''title'' = Inr title \<and> title \<noteq> JNull \<and>
             subscript (snd item) ''description'' = Inr description) \<and>
          commit_fault (db_engine env)
            (map OContentPlan (planned_rows env channel_id (utcnow (db_engine env)) items)) = None
          \<longrightarrow>
            fst (generate_content_plan env s channel_id days) =
              Inr (JObj [(''success'', JBool True), (''content_plan'', JObj items)])
          \<and> pending (snd (generate_content_plan env s channel_id days)) = []
          \<and> (\<exists>new. content_plans (store (snd (generate_content_plan env s channel_id days))) =
                       content_plans (store s0) @ new
                   \<and> map (\<lambda>r. (cp_planned_date r, cp_status r)) new =
                       map (\<lambda>n. (utcnow (db_engine env) + (n - 1) * us_per_day, ''draft'')) ns))
       \<and> (content_plans (store (snd (generate_content_plan env s channel_id days))) \<noteq>
            content_plans (store s0) \<longrightarrow>
            (\<exists>result items new.
               acreate env (plan_request analysis_data days) = Inr result
             \<and> loads env result = Inr (JObj items)
             \<and> fst (generate_content_plan env s channel_id days) =
                 Inr (JObj [(''success'', JBool True), (''content_plan'', JObj items)])
             \<and> content_plans (store (snd (generate_content_plan env s channel_id days))) =
                 content_plans (store s0) @ new
             \<and> length new = length items))"
proof (intro conjI impI)
  let ?today = "utcnow (db_engine env)"
  let ?s1 = "s0\<lparr>calls := calls s0 @ [plan_request analysis_data days]\<rparr>"
  assume well_formed:
    "acreate env (plan_request analysis_data days) = Inr result \<and>
     loads env result = Inr (JObj items) \<and>
     map (\<lambda>item. day_number (fst item)) items = map Some ns \<and>
     (\<forall>n \<in> set ns. \<exists>t. add_days ?today (n - 1) = Inr t) \<and>
     (\<forall>item \<in> set items. \<exists>title description.
        subscript (snd item) ''title'' = Inr title \<and> title \<noteq> JNull \<and>
        subscript (snd item) ''description'' = Inr description) \<and>
     commit_fault (db_engine env)
       (map OContentPlan (planned_rows env channel_id ?today items)) = None"
  then have response: "acreate env (plan_request analysis_data days) = Inr result"
    and parsed: "loads env result = Inr (JObj items)"
    and days: "map (\<lambda>item. day_number (fst item)) items = map Some ns"
    and range: "\<forall>n \<in> set ns. \<exists>t. add_days ?today (n - 1) = Inr t"
    and fields: "\<forall>item \<in> set items. \<exists>title description.
        subscript (snd item) ''title'' = Inr title \<and> title \<noteq> JNull \<and>
        subscript (snd item) ''description'' = Inr description"
    and accepted: "commit_fault (db_engine env)
       (map OContentPlan (planned_rows env channel_id ?today items)) = None"
    by simp_all
  from items_build_rows [OF days range fields, of env channel_id] obtain rows where
    built: "map (content_plan_of env channel_id ?today) items = map Inr rows"
    and dates: "map (\<lambda>r. (cp_planned_date r, cp_status r)) rows =
                  map (\<lambda>n. (?today + (n - 1) * us_per_day, ''draft'')) ns"
    and titles: "\<forall>r \<in> set rows. cp_title r \<noteq> JNull"
    by blast
  from plan_loop_builds [OF built, of ?s1] fresh
  have loop: "plan_loop env channel_id ?today items ?s1 =
                (None, ?s1\<lparr>pending := map OContentPlan rows\<rparr>)"
    by simp
  let ?d = "fold (\<lambda>ob acc. flush_obj ?today acc ob) (map OContentPlan rows) (store s0)"
  have stored: "commit (db_engine env) (store s0) (map OContentPlan rows) = Inr ?d"
    using accepted titles planned_rows_built [OF built]
    by (simp add: commit_def unique_violation_def content_plans_accepted)
  have run: "generate_content_plan env s channel_id days =
               (Inr (JObj [(''success'', JBool True), (''content_plan'', JObj items)]),
                ?s1\<lparr>pending := map OContentPlan rows\<rparr>\<lparr>store := ?d, pending := []\<rparr>)"
    using response loop stored
    by (simp add: generate_content_plan_def up send_def plan_request_def parsed
          session_commit_def)
  show "fst (generate_content_plan env s channel_id days) =
          Inr (JObj [(''success'', JBool True), (''content_plan'', JObj items)])"
    by (simp add: run)
  show "pending (snd (generate_content_plan env s channel_id days)) = []"
    by (simp add: run)
  from flush_content_plans [of ?today rows "store s0"] dates
  show "\<exists>new. content_plans (store (snd (generate_content_plan env s channel_id days))) =
                content_plans (store s0) @ new
            \<and> map (\<lambda>r. (cp_planned_date r, cp_status r)) new =
                map (\<lambda>n. (?today + (n - 1) * us_per_day, ''draft'')) ns"
    by (auto simp: run)
next
  assume "content_plans (store (snd (generate_content_plan env s channel_id days))) \<noteq>
            content_plans (store s0)"
  from plan_all_or_nothing [OF up fresh this]
  show "\<exists>result items new.
           acreate env (plan_request analysis_data days) = Inr result
         \<and> loads env result = Inr (JObj items)
         \<and> fst (generate_content_plan env s channel_id days) =
             Inr (JObj [(''success'', JBool True), (''content_plan'', JObj items)])
         \<and> content_plans (store (snd (generate_content_plan env s channel_id days))) =
             content_plans (store s0) @ new
         \<and> length new = length items" .
qed

lemmas python_defs = second_def py_int_def code_points_def code_point_def continuation_def
  int_space_def is_space_def parse_digits_def digit_of_def digit_zeros_def add_days_def
  us_per_day_def subscript_def day_number_def

lemma ex_day_numbers:
  "day_number ''day_1'' = Some 1" "day_number ''day_2'' = Some 2" "day_number ''day_3'' = Some 3"
  "day_number ''someday'' = None"
  by (simp_all add: python_defs)

text \<open>
  Claim C6, as stated, fails: with \<open>days = 3\<close>, a stored channel analysis and a successfully
  parsed response that plans one day, the operation succeeds and stores one row, not three.
\<close>

theorem plan_rows_follow_the_response:
  "fst (generate_content_plan (ex_env ex_engine (\<lambda>rq. Inr ''plan1''))
          (fresh_session ex_db_analysed) 1 3) =
     Inr (JObj [(''success'', JBool True), (''content_plan'', JObj ex_plan1)])
   \<and> length (content_plans (store (snd (generate_content_plan
          (ex_env ex_engine (\<lambda>rq. Inr ''plan1'')) (fresh_session ex_db_analysed) 1 3)))) = 1"
  by (simp add: orchestrator_defs content_plan_of_def python_defs commit_def
        unique_violation_def ex_env_def ex_engine_def ex_loads_def ex_db_analysed_def
        fresh_session_def empty_db_def ex_plan1_def ex_day_def ex_now_def Let_def)

text \<open>
  The amended claim C6 on a response with the keys \<open>day_1\<close>, \<open>day_2\<close>, \<open>day_3\<close>: three rows,
  planned for today, tomorrow and the day after, all drafts; and on a response whose second
  key has no day number: an error, and no row stored, the first one included.
\<close>

theorem content_plan_rows_witness:
  "fst (generate_content_plan (ex_env ex_engine (\<lambda>rq. Inr ''plan3''))
          (fresh_session ex_db_analysed) 1 3) =
     Inr (JObj [(''success'', JBool True), (''content_plan'', JObj ex_plan3)])
   \<and> map (\<lambda>r. (cp_planned_date r, cp_status r))
        (content_plans (store (snd (generate_content_plan
           (ex_env ex_engine (\<lambda>rq. Inr ''plan3'')) (fresh_session ex_db_analysed) 1 3)))) =
      [(ex_now, ''draft''), (ex_now + us_per_day, ''draft''), (ex_now + 2 * us_per_day, ''draft'')]
   \<and> fst (generate_content_plan (ex_env ex_engine (\<lambda>rq. Inr ''plan_bad''))
          (fresh_session ex_db_analysed) 1 3) =
     Inr (JObj [(''error'', JStr ''list index out of range'')])
   \<and> content_plans (store (snd (generate_content_plan
          (ex_env ex_engine (\<lambda>rq. Inr ''plan_bad'')) (fresh_session ex_db_analysed) 1 3))) = []"
proof -
  let ?env = "ex_env ex_engine (\<lambda>rq. Inr ''plan3'')"
  let ?bad = "ex_env ex_engine (\<lambda>rq. Inr ''plan_bad'')"
  let ?s = "fresh_session ex_db_analysed"
  have 1: "upstream_analysis ?env ?s 1 = (Inr ex_analysis, ?s)"
    "upstream_analysis ?bad ?s 1 = (Inr ex_analysis, ?s)"
    by (simp_all add: orchestrator_defs ex_env_def ex_engine_def ex_loads_def ex_db_analysed_def
          fresh_session_def empty_db_def)
  have 2: "pending ?s = []"
    by (simp add: fresh_session_def)
  have 3: "acreate ?env (plan_request ex_analysis 3) = Inr ''plan3''"
    by (simp add: ex_env_def)
  have 4: "loads ?env ''plan3'' = Inr (JObj ex_plan3)"
    by (simp add: ex_env_def ex_loads_def)
  have 5: "map (\<lambda>item. day_number (fst item)) ex_plan3 = map Some [1, 2, 3]"
    by (simp add: ex_plan3_def ex_day_numbers)
  have 6: "\<forall>n \<in> set [1, 2, 3 :: int]. \<exists>t. add_days (utcnow (db_engine ?env)) (n - 1) = Inr t"
    by (simp add: ex_env_def ex_engine_def ex_now_def add_days_def us_per_day_def)
  have 7: "\<forall>item \<in> set ex_plan3. \<exists>title description.
             subscript (snd item) ''title'' = Inr title \<and> title \<noteq> JNull \<and>
             subscript (snd item) ''description'' = Inr description"
    by (simp add: ex_plan3_def ex_day_def subscript_def)
  have 8: "commit_fault (db_engine ?env)
             (map OContentPlan (planned_rows ?env 1 (utcnow (db_engine ?env)) ex_plan3)) = None"
    by (simp add: ex_env_def ex_engine_def)
  have 9: "content_plans (store ?s) = []" "utcnow (db_engine ?env) = ex_now"
    by (simp_all add: fresh_session_def ex_db_analysed_def empty_db_def ex_env_def ex_engine_def)
  have failed: "fst (generate_content_plan ?bad ?s 1 3) =
                  Inr (JObj [(''error'', JStr ''list index out of range'')])"
    by (simp add: orchestrator_defs content_plan_of_def python_defs split_underscore.simps
          ex_env_def ex_engine_def ex_loads_def ex_exc_str_def ex_db_analysed_def
          fresh_session_def empty_db_def ex_plan_bad_def ex_day_def ex_now_def Let_def)
  from content_plan_rows [OF 1(1) 2, of 3 "''plan3''" ex_plan3 "[1, 2, 3]"] 3 4 5 6 7 8 9
  have good: "fst (generate_content_plan ?env ?s 1 3) =
       Inr (JObj [(''success'', JBool True), (''content_plan'', JObj ex_plan3)])"
    "map (\<lambda>r. (cp_planned_date r, cp_status r))
        (content_plans (store (snd (generate_content_plan ?env ?s 1 3)))) =
      [(ex_now, ''draft''), (ex_now + us_per_day, ''draft''), (ex_now + 2 * us_per_day, ''draft'')]"
    by auto
  from content_plan_rows [OF 1(2) 2, of 3] failed 9(1)
  have "content_plans (store (snd (generate_content_plan ?bad ?s 1 3))) = []"
    by auto
  with good failed show ?thesis
    by simp
qed

subsection \<open>The boundary of the orchestrator\<close>

text \<open>With the queries answered, nothing before the \<open>try\<close> raises, and everything
  after it returns.\<close>

lemma gather_posts_answered:
  "\<forall>q. query_fault (db_engine env) q = None \<Longrightarrow> \<exists>ds. gather_posts env d ps = Inr ds"
  by (induction ps)
     (auto simp: query_comments_def query_reactions_def run_query_def split: sum.splits)

lemma add_commit_return_returns:
  "\<exists>payload'. fst (add_commit_return env s ob payload) = Inr payload'"
  by (auto simp: add_commit_return_def split: sum.splits)

lemma analyze_channel_content_returns:
  assumes "\<forall>q. query_fault (db_engine env) q = None"
  shows "\<exists>payload. fst (analyze_channel_content env s channel_id) = Inr payload"
proof -
  let ?ps = "take 50 (order_desc p_posted_at
               (filter (\<lambda>p. p_channel_id p = channel_id) (posts (store s))))"
  have query: "query_posts env (store s) channel_id = Inr ?ps"
    using assms by (simp add: query_posts_def run_query_def)
  from gather_posts_answered [OF assms] obtain ds where
    gathered: "gather_posts env (store s) ?ps = Inr ds"
    by blast
  show ?thesis
    using add_commit_return_returns
    by (auto simp: analyze_channel_content_def query gathered send_def Let_def
        split: sum.splits)
qed

lemma latest_analysis_stored:
  assumes "query_latest_analysis env d channel_id = Inr (Some a)"
  shows "a \<in> set (analyses d)"
proof -
  let ?rows = "order_desc a_created_at
     (filter (\<lambda>a. a_channel_id a = Some channel_id \<and> a_analysis_type a = ''channel_content'')
        (analyses d))"
  from assms obtain rest where "?rows = a # rest"
    by (auto simp: query_latest_analysis_def run_query_def split: option.splits list.splits)
  then have "a \<in> set ?rows"
    by simp
  then show ?thesis
    by (simp add: order_desc_def)
qed

lemma upstream_analysis_returns:
  assumes "\<forall>q. query_fault (db_engine env) q = None"
    and "\<forall>a \<in> set (analyses (store s)). \<exists>v. loads env (a_content a) = Inr v"
  shows "\<exists>analysis_data s0. upstream_analysis env s channel_id = (Inr analysis_data, s0)"
proof (cases "query_latest_analysis env (store s) channel_id")
  case (Inl e)
  with assms(1) show ?thesis
    by (simp add: query_latest_analysis_def run_query_def)
next
  case (Inr found)
  show ?thesis
  proof (cases found)
    case None
    with Inr analyze_channel_content_returns [OF assms(1), of s channel_id] show ?thesis
      by (cases "analyze_channel_content env s channel_id") (auto simp: upstream_analysis_def)
  next
    case (Some a)
    with Inr latest_analysis_stored assms(2) obtain v where "loads env (a_content a) = Inr v"
      by blast
    with Inr Some show ?thesis
      by (auto simp: upstream_analysis_def)
  qed
qed

lemma dependent_task_returns:
  assumes "upstream_analysis env s channel_id = (Inr analysis_data, s0)"
  shows "\<exists>payload. fst (generate_content_plan env s channel_id days) = Inr payload"
    and "\<exists>payload. fst (generate_survey env s channel_id) = Inr payload"
  using add_commit_return_returns
  by (auto simp: generate_content_plan_def generate_survey_def assms send_def Let_def
      split: sum.splits option.splits json.splits prod.splits)

lemma analyze_post_performance_returns:
  assumes "\<forall>q. query_fault (db_engine env) q = None"
  shows "\<exists>payload. fst (analyze_post_performance env s post_id) = Inr payload"
  using add_commit_return_returns assms
  by (auto simp: analyze_post_performance_def query_post_def query_comments_def
        query_reactions_def run_query_def send_def Let_def
      split: sum.splits option.splits)

lemma boundary_returns:
  "((\<forall>q. query_fault (db_engine env) q = None) \<and>
     (\<forall>a \<in> set (analyses (store s)). \<exists>v. loads env (a_content a) = Inr v) \<longrightarrow>
       (\<exists>payload. fst (analyze_channel_content env s channel_id) = Inr payload)
     \<and> (\<exists>payload. fst (generate_content_plan env s channel_id days) = Inr payload)
     \<and> (\<exists>payload. fst (analyze_post_performance env s post_id) = Inr payload)
     \<and> (\<exists>payload. fst (generate_survey env s channel_id) = Inr payload))"
proof (intro impI)
  assume "(\<forall>q. query_fault (db_engine env) q = None) \<and>
     (\<forall>a \<in> set (analyses (store s)). \<exists>v. loads env (a_content a) = Inr v)"
  then have answered: "\<forall>q. query_fault (db_engine env) q = None"
    and readable: "\<forall>a \<in> set (analyses (store s)). \<exists>v. loads env (a_content a) = Inr v"
    by simp_all
  from upstream_analysis_returns [OF answered readable, of channel_id]
  obtain analysis_data s0 where
    up: "upstream_analysis env s channel_id = (Inr analysis_data, s0)"
    by blast
  show "(\<exists>payload. fst (analyze_channel_content env s channel_id) = Inr payload)
     \<and> (\<exists>payload. fst (generate_content_plan env s channel_id days) = Inr payload)
     \<and> (\<exists>payload. fst (analyze_post_performance env s post_id) = Inr payload)
     \<and> (\<exists>payload. fst (generate_survey env s channel_id) = Inr payload)"
    using analyze_channel_content_returns [OF answered, of s channel_id]
      analyze_post_performance_returns [OF answered, of s post_id]
      dependent_task_returns [OF up]
    by blast
qed

text \<open>What is raised after the gathering is returned as \<open>{"error": str(e)}\<close>, stage by
  stage.\<close>

lemmas boundary_defs = send_def add_commit_return_def session_commit_def session_add_def
  caught_def error_payload_def error_dict_def channel_request_def post_request_def
  plan_request_def survey_request_def Let_def

lemma boundary_channel:
  "(query_posts env (store s) channel_id = Inr ps \<and> ps \<noteq> [] \<and>
     gather_posts env (store s) ps = Inr posts_data \<longrightarrow>
       (acreate env (channel_request posts_data) = Inl e \<longrightarrow>
          fst (analyze_channel_content env s channel_id) = error_dict env e)
     \<and> (acreate env (channel_request posts_data) = Inr answer \<and>
        loads env answer = Inl e \<and> e \<noteq> JSONDecodeError \<longrightarrow>
          fst (analyze_channel_content env s channel_id) = error_dict env e)
     \<and> (acreate env (channel_request posts_data) = Inr answer \<and> loads env answer = Inr v \<and>
        commit (db_engine env) (store s)
          (pending s @ [OAnalysis (channel_analysis_row env channel_id v)]) = Inl e \<longrightarrow>
          fst (analyze_channel_content env s channel_id) = error_dict env e)
     \<and> (acreate env (channel_request posts_data) = Inr answer \<and>
        loads env answer = Inl JSONDecodeError \<and>
        commit (db_engine env) (store s)
          (pending s @ [OAnalysis (channel_analysis_row env channel_id
             (JObj [(''analysis'', JStr answer)]))]) = Inl e \<longrightarrow>
          fst (analyze_channel_content env s channel_id) = error_dict env e))"
  by (simp add: analyze_channel_content_def boundary_defs)

lemma boundary_post:
  "(query_post env (store s) post_id = Inr (Some post) \<and>
     query_comments env (store s) (Some post_id) = Inr cs \<and>
     query_reactions env (store s) (Some post_id) = Inr rs \<longrightarrow>
       (acreate env (post_request (post_json env post cs rs)) = Inl e \<longrightarrow>
          fst (analyze_post_performance env s post_id) = error_dict env e)
     \<and> (acreate env (post_request (post_json env post cs rs)) = Inr answer \<and>
        loads env answer = Inl e \<and> e \<noteq> JSONDecodeError \<longrightarrow>
          fst (analyze_post_performance env s post_id) = error_dict env e)
     \<and> (acreate env (post_request (post_json env post cs rs)) = Inr answer \<and>
        loads env answer = Inr v \<and>
        commit (db_engine env) (store s)
          (pending s @ [OAnalysis (post_analysis_row env post_id v)]) = Inl e \<longrightarrow>
          fst (analyze_post_performance env s post_id) = error_dict env e))"
  by (simp add: analyze_post_performance_def boundary_defs)

lemma boundary_plan:
  "(upstream_analysis env s channel_id = (Inr analysis_data, s0) \<longrightarrow>
       (acreate env (plan_request analysis_data days) = Inl e \<longrightarrow>
          fst (generate_content_plan env s channel_id days) = error_dict env e)
     \<and> (acreate env (plan_request analysis_data days) = Inr answer \<and>
        loads env answer = Inl e \<and> e \<noteq> JSONDecodeError \<longrightarrow>
          fst (generate_content_plan env s channel_id days) = error_dict env e)
     \<and> (acreate env (plan_request analysis_data days) = Inr answer \<and>
        loads env answer = Inr v \<and> (\<forall>items. v \<noteq> JObj items) \<longrightarrow>
          fst (generate_content_plan env s channel_id days) = error_dict env AttributeError)
     \<and> (acreate env (plan_request analysis_data days) = Inr answer \<and>
        loads env answer = Inr (JObj (before @ item # after)) \<and>
        map (content_plan_of env channel_id (utcnow (db_engine env))) before = map Inr rows \<and>
        content_plan_of env channel_id (utcnow (db_engine env)) item = Inl e \<longrightarrow>
          fst (generate_content_plan env s channel_id days) = error_dict env e)
     \<and> (acreate env (plan_request analysis_data days) = Inr answer \<and>
        loads env answer = Inr (JObj items) \<and>
        map (content_plan_of env channel_id (utcnow (db_engine env))) items = map Inr rows \<and>
        commit (db_engine env) (store s0) (pending s0 @ map OContentPlan rows) = Inl e \<longrightarrow>
          fst (generate_content_plan env s channel_id days) = error_dict env e))"
proof (intro impI)
  assume up: "upstream_analysis env s channel_id = (Inr analysis_data, s0)"
  let ?today = "utcnow (db_engine env)"
  let ?s1 = "s0\<lparr>calls := calls s0 @ [plan_request analysis_data days]\<rparr>"
  have raised: "map (content_plan_of env channel_id ?today) before = map Inr rows \<Longrightarrow>
      content_plan_of env channel_id ?today item = Inl e \<Longrightarrow>
      plan_loop env channel_id ?today (before @ item # after) ?s1 =
        (Some e, ?s1\<lparr>pending := pending ?s1 @ map OContentPlan rows\<rparr>)"
    by (rule plan_loop_raises)
  have built: "map (content_plan_of env channel_id ?today) items = map Inr rows \<Longrightarrow>
      plan_loop env channel_id ?today items ?s1 =
        (None, ?s1\<lparr>pending := pending ?s1 @ map OContentPlan rows\<rparr>)"
    by (rule plan_loop_builds)
  show "(acreate env (plan_request analysis_data days) = Inl e \<longrightarrow>
          fst (generate_content_plan env s channel_id days) = error_dict env e)
     \<and> (acreate env (plan_request analysis_data days) = Inr answer \<and>
        loads env answer = Inl e \<and> e \<noteq> JSONDecodeError \<longrightarrow>
          fst (generate_content_plan env s channel_id days) = error_dict env e)
     \<and> (acreate env (plan_request analysis_data days) = Inr answer \<and>
        loads env answer = Inr v \<and> (\<forall>items. v \<noteq> JObj items) \<longrightarrow>
          fst (generate_content_plan env s channel_id days) = error_dict env AttributeError)
     \<and> (acreate env (plan_request analysis_data days) = Inr answer \<and>
        loads env answer = Inr (JObj (before @ item # after)) \<and>
        map (content_plan_of env channel_id (utcnow (db_engine env))) before = map Inr rows \<and>
        content_plan_of env channel_id (utcnow (db_engine env)) item = Inl e \<longrightarrow>
          fst (generate_content_plan env s channel_id days) = error_dict env e)
     \<and> (acreate env (plan_request analysis_data days) = Inr answer \<and>
        loads env answer = Inr (JObj items) \<and>
        map (content_plan_of env channel_id (utcnow (db_engine env))) items = map Inr rows \<and>
        commit (db_engine env) (store s0) (pending s0 @ map OContentPlan rows) = Inl e \<longrightarrow>
          fst (generate_content_plan env s channel_id days) = error_dict env e)"
    using raised built
    by (auto simp: generate_content_plan_def up boundary_defs split: json.splits)
qed

lemma boundary_survey:
  "(upstream_analysis env s channel_id = (Inr analysis_data, s0) \<longrightarrow>
       (acreate env (survey_request analysis_data) = Inl e \<longrightarrow>
          fst (generate_survey env s channel_id) = error_dict env e)
     \<and> (acreate env (survey_request analysis_data) = Inr answer \<and>
        loads env answer = Inl e \<and> e \<noteq> JSONDecodeError \<longrightarrow>
          fst (generate_survey env s channel_id) = error_dict env e)
     \<and> (acreate env (survey_request analysis_data) = Inr answer \<and>
        loads env answer = Inr v \<and> survey_of env channel_id v = Inl e \<longrightarrow>
          fst (generate_survey env s channel_id) = error_dict env e)
     \<and> (acreate env (survey_request analysis_data) = Inr answer \<and>
        loads env answer = Inr v \<and> survey_of env channel_id v = Inr survey \<and>
        commit (db_engine env) (store s0) (pending s0 @ [OSurvey survey]) = Inl e \<longrightarrow>
          fst (generate_survey env s channel_id) = error_dict env e))"
  by (simp add: generate_survey_def boundary_defs)

text \<open>
  Claim C1, as amended. What runs before the \<open>try\<close> is the gathering: the store queries
  and, for the two dependent tasks, \<open>json.loads\<close> of the stored analysis or the inline
  analysis. When the store answers the queries and the stored analyses are readable, each
  of the four operations returns a value, whatever the model client, the parser and the
  engine do. And whatever is raised after the gathering is returned as \<open>{"error": str(e)}\<close>:
  by the model client; by \<open>json.loads\<close> on the response, other than \<open>JSONDecodeError\<close>; by
  the handling of the parsed response (a plan that is no object, an item whose row cannot be
  built, a survey without its fields); by the commit of what was added.
\<close>

theorem orchestrator_boundary:
  "((\<forall>q. query_fault (db_engine env) q = None) \<and>
     (\<forall>a \<in> set (analyses (store s)). \<exists>v. loads env (a_content a) = Inr v) \<longrightarrow>
       (\<exists>payload. fst (analyze_channel_content env s channel_id) = Inr payload)
     \<and> (\<exists>payload. fst (generate_content_plan env s channel_id days) = Inr payload)
     \<and> (\<exists>payload. fst (analyze_post_performance env s post_id) = Inr payload)
     \<and> (\<exists>payload. fst (generate_survey env s channel_id) = Inr payload))
   \<and> (query_posts env (store s) channel_id = Inr ps \<and> ps \<noteq> [] \<and>
     gather_posts env (store s) ps = Inr posts_data \<longrightarrow>
       (acreate env (channel_request posts_data) = Inl e \<longrightarrow>
          fst (analyze_channel_content env s channel_id) = error_dict env e)
     \<and> (acreate env (channel_request posts_data) = Inr answer \<and>
        loads env answer = Inl e \<and> e \<noteq> JSONDecodeError \<longrightarrow>
          fst (analyze_channel_content env s channel_id) = error_dict env e)
     \<and> (acreate env (channel_request posts_data) = Inr answer \<and> loads env answer = Inr v \<and>
        commit (db_engine env) (store s)
          (pending s @ [OAnalysis (channel_analysis_row env channel_id v)]) = Inl e \<longrightarrow>
          fst (analyze_channel_content env s channel_id) = error_dict env e)
     \<and> (acreate env (channel_request posts_data) = Inr answer \<and>
        loads env answer = Inl JSONDecodeError \<and>
        commit (db_engine env) (store s)
          (pending s @ [OAnalysis (channel_analysis_row env channel_id
             (JObj [(''analysis'', JStr answer)]))]) = Inl e \<longrightarrow>
          fst (analyze_channel_content env s channel_id) = error_dict env e))
   \<and> (query_post env (store s) post_id = Inr (Some post) \<and>
     query_comments env (store s) (Some post_id) = Inr cs \<and>
     query_reactions env (store s) (Some post_id) = Inr rs \<longrightarrow>
       (acreate env (post_request (post_json env post cs rs)) = Inl e \<longrightarrow>
          fst (analyze_post_performance env s post_id) = error_dict env e)
     \<and> (acreate env (post_request (post_json env post cs rs)) = Inr answer \<and>
        loads env answer = Inl e \<and> e \<noteq> JSONDecodeError \<longrightarrow>
          fst (analyze_post_performance env s post_id) = error_dict env e)
     \<and> (acreate env (post_request (post_json env post cs rs)) = Inr answer \<and>
        loads env answer = Inr v \<and>
        commit (db_engine env) (store s)
          (pending s @ [OAnalysis (post_analysis_row env post_id v)]) = Inl e \<longrightarrow>
          fst (analyze_post_performance env s post_id) = error_dict env e))
   \<and> (upstream_analysis env s channel_id = (Inr analysis_data, s0) \<longrightarrow>
       (acreate env (plan_request analysis_data days) = Inl e \<longrightarrow>
          fst (generate_content_plan env s channel_id days) = error_dict env e)
     \<and> (acreate env (plan_request analysis_data days) = Inr answer \<and>
        loads env answer = Inl e \<and> e \<noteq> JSONDecodeError \<longrightarrow>
          fst (generate_content_plan env s channel_id days) = error_dict env e)
     \<and> (acreate env (plan_request analysis_data days) = Inr answer \<and>
        loads env answer = Inr v \<and> (\<forall>items. v \<noteq> JObj items) \<longrightarrow>
          fst (generate_content_plan env s channel_id days) = error_dict env AttributeError)
     \<and> (acreate env (plan_request analysis_data days) = Inr answer \<and>
        loads env answer = Inr (JObj (before @ item # after)) \<and>
        map (content_plan_of env channel_id (utcnow (db_engine env))) before = map Inr rows \<and>
        content_plan_of env channel_id (utcnow (db_engine env)) item = Inl e \<longrightarrow>
          fst (generate_content_plan env s channel_id days) = error_dict env e)
     \<and> (acreate env (plan_request analysis_data days) = Inr answer \<and>
        loads env answer = Inr (JObj items) \<and>
        map (content_plan_of env channel_id (utcnow (db_engine env))) items = map Inr rows \<and>
        commit (db_engine env) (store s0) (pending s0 @ map OContentPlan rows) = Inl e \<longrightarrow>
          fst (generate_content_plan env s channel_id days) = error_dict env e))
   \<and> (upstream_analysis env s channel_id = (Inr analysis_data, s0) \<longrightarrow>
       (acreate env (survey_request analysis_data) = Inl e \<longrightarrow>
          fst (generate_survey env s channel_id) = error_dict env e)
     \<and> (acreate env (survey_request analysis_data) = Inr answer \<and>
        loads env answer = Inl e \<and> e \<noteq> JSONDecodeError \<longrightarrow>
          fst (generate_survey env s channel_id) = error_dict env e)
     \<and> (acreate env (survey_request analysis_data) = Inr answer \<and>
        loads env answer = Inr v \<and> survey_of env channel_id v = Inl e \<longrightarrow>
          fst (generate_survey env s channel_id) = error_dict env e)
     \<and> (acreate env (survey_request analysis_data) = Inr answer \<and>
        loads env answer = Inr v \<and> survey_of env channel_id v = Inr survey \<and>
        commit (db_engine env) (store s0) (pending s0 @ [OSurvey survey]) = Inl e \<longrightarrow>
          fst (generate_survey env s channel_id) = error_dict env e))"
  by (intro conjI boundary_returns boundary_channel boundary_post boundary_plan
        boundary_survey)

text \<open>
  Claim C1, as stated, fails: the queries that gather the data stand before the \<open>try\<close>, so
  a store that fails the query for the channel's posts makes \<open>analyze_channel_content\<close>
  raise.
\<close>

theorem query_failure_escapes:
  "fst (analyze_channel_content (ex_env ex_engine_down (\<lambda>rq. Inr ''answer''))
          (fresh_session ex_db_posts) 1) = Inl (External ''database is locked'')"
  by (simp add: analyze_channel_content_def query_posts_def run_query_def ex_env_def
        ex_engine_down_def)

text \<open>
  The amended claim C1 on a channel with a stored post and a stored analysis: a model
  client that always raises, a response whose second key has no day number, and an engine
  that refuses the flush.
\<close>

theorem orchestrator_boundary_witness:
  "fst (generate_content_plan (ex_env ex_engine (\<lambda>rq. Inl (External ''rate limit'')))
          (fresh_session ex_db_both) 1 3) =
     Inr (JObj [(''error'', JStr ''rate limit'')])
   \<and> fst (analyze_post_performance (ex_env ex_engine (\<lambda>rq. Inl (External ''rate limit'')))
          (fresh_session ex_db_both) 1) =
     Inr (JObj [(''error'', JStr ''rate limit'')])
   \<and> (\<exists>payload. fst (generate_survey (ex_env ex_engine (\<lambda>rq. Inl (External ''rate limit'')))
          (fresh_session ex_db_both) 1) = Inr payload)
   \<and> fst (generate_content_plan (ex_env ex_engine (\<lambda>rq. Inr ''plan_bad''))
          (fresh_session ex_db_both) 1 3) =
     Inr (JObj [(''error'', JStr ''list index out of range'')])
   \<and> fst (analyze_channel_content (ex_env ex_engine_full (\<lambda>rq. Inr ''stored''))
          (fresh_session ex_db_both) 1) =
     Inr (JObj [(''error'', JStr ''disk full'')])"
proof -
  let ?rate = "ex_env ex_engine (\<lambda>rq. Inl (External ''rate limit''))"
  let ?bad = "ex_env ex_engine (\<lambda>rq. Inr ''plan_bad'')"
  let ?full = "ex_env ex_engine_full (\<lambda>rq. Inr ''stored'')"
  let ?s = "fresh_session ex_db_both"
  let ?post = "\<lparr>p_id = Some 1, p_tg_id = 7, p_channel_id = 1, p_content = ''hello'',
                p_posted_at = ex_now, p_views = Some 10, p_forwards = Some 0\<rparr>"
  let ?row = "\<lparr>cp_id = None, cp_channel_id = 1, cp_title = JStr ''one'',
               cp_description = JStr ''about'', cp_planned_date = ex_now,
               cp_content = ''stored'', cp_status = ''draft''\<rparr>"
  have answered: "\<forall>q. query_fault (db_engine ?rate) q = None"
    by (simp add: ex_env_def ex_engine_def)
  have readable: "\<forall>a \<in> set (analyses (store ?s)). \<exists>v. loads ?rate (a_content a) = Inr v"
    by (simp add: fresh_session_def ex_db_both_def ex_db_posts_def empty_db_def ex_env_def
          ex_loads_def)
  have up: "upstream_analysis ?rate ?s 1 = (Inr ex_analysis, ?s)"
    "upstream_analysis ?bad ?s 1 = (Inr ex_analysis, ?s)"
    by (simp_all add: orchestrator_defs ex_env_def ex_engine_def ex_loads_def ex_db_both_def
          ex_db_posts_def fresh_session_def empty_db_def)
  have rate: "acreate ?rate (plan_request ex_analysis 3) = Inl (External ''rate limit'')"
    "acreate ?rate (post_request (post_json ?rate ?post [] [])) = Inl (External ''rate limit'')"
    "exc_str ?rate (External ''rate limit'') = ''rate limit''"
    by (simp_all add: ex_env_def ex_exc_str_def)
  have post: "query_post ?rate (store ?s) 1 = Inr (Some ?post)"
    "query_comments ?rate (store ?s) (Some 1) = Inr []"
    "query_reactions ?rate (store ?s) (Some 1) = Inr []"
    by (simp_all add: orchestrator_defs ex_env_def ex_engine_def ex_db_both_def ex_db_posts_def
          fresh_session_def empty_db_def)
  have bad: "acreate ?bad (plan_request ex_analysis 3) = Inr ''plan_bad''"
    "loads ?bad ''plan_bad'' = Inr (JObj ([(''day_1'', ex_day ''one'')] @
                                           (''someday'', ex_day ''two'') # []))"
    "map (content_plan_of ?bad 1 (utcnow (db_engine ?bad))) [(''day_1'', ex_day ''one'')] =
       map Inr [?row]"
    "content_plan_of ?bad 1 (utcnow (db_engine ?bad)) (''someday'', ex_day ''two'') =
       Inl IndexError"
    "exc_str ?bad IndexError = ''list index out of range''"
    by (simp_all add: ex_env_def ex_engine_def ex_loads_def ex_plan_bad_def ex_exc_str_def
          content_plan_of_def python_defs ex_day_def ex_now_def)
  have full: "query_posts ?full (store ?s) 1 = Inr [?post]"
    "gather_posts ?full (store ?s) [?post] = Inr [channel_post_json ?full ?post [] []]"
    "acreate ?full (channel_request [channel_post_json ?full ?post [] []]) = Inr ''stored''"
    "loads ?full ''stored'' = Inr ex_analysis"
    "commit (db_engine ?full) (store ?s)
       (pending ?s @ [OAnalysis (channel_analysis_row ?full 1 ex_analysis)]) =
       Inl (External ''disk full'')"
    "exc_str ?full (External ''disk full'') = ''disk full''"
    by (simp_all add: orchestrator_defs commit_def ex_env_def ex_engine_full_def ex_loads_def
          ex_exc_str_def ex_db_both_def ex_db_posts_def fresh_session_def empty_db_def)
  from orchestrator_boundary
         [where env = ?rate and s = ?s and channel_id = 1 and days = 3 and post_id = 1
            and e = "External ''rate limit''" and analysis_data = ex_analysis and ?s0.0 = ?s
            and post = ?post and cs = "[]" and rs = "[]"]
       answered readable up(1) rate post
  have first: "fst (generate_content_plan ?rate ?s 1 3) =
                 Inr (JObj [(''error'', JStr ''rate limit'')])"
    "fst (analyze_post_performance ?rate ?s 1) = Inr (JObj [(''error'', JStr ''rate limit'')])"
    "\<exists>payload. fst (generate_survey ?rate ?s 1) = Inr payload"
    by (simp_all add: error_dict_def)
  from orchestrator_boundary
         [where env = ?bad and s = ?s and channel_id = 1 and days = 3
            and e = IndexError and analysis_data = ex_analysis and ?s0.0 = ?s
            and answer = "''plan_bad''" and before = "[(''day_1'', ex_day ''one'')]"
            and item = "(''someday'', ex_day ''two'')" and after = "[]" and rows = "[?row]"]
       up(2) bad
  have second: "fst (generate_content_plan ?bad ?s 1 3) =
                  Inr (JObj [(''error'', JStr ''list index out of range'')])"
    by (simp add: error_dict_def)
  from orchestrator_boundary
         [where env = ?full and s = ?s and channel_id = 1
            and e = "External ''disk full''" and ps = "[?post]"
            and posts_data = "[channel_post_json ?full ?post [] []]"
            and answer = "''stored''" and v = ex_analysis]
       full
  have third: "fst (analyze_channel_content ?full ?s 1) =
                 Inr (JObj [(''error'', JStr ''disk full'')])"
    by (simp add: error_dict_def)
  from first second third show ?thesis
    by simp
qed

section \<open>Properties of the conversation controller\<close>

lemma perform_keeps_data:
  "data (snd (perform_channel_analysis benv st)) = data st"
  "data (snd (perform_content_plan_generation benv st)) = data st"
  "data (snd (perform_post_analysis benv st)) = data st"
  "data (snd (perform_survey_creation benv st)) = data st"
  by (auto simp: perform_channel_analysis_def perform_content_plan_generation_def
        perform_post_analysis_def perform_survey_creation_def close_session_def Let_def
      split: prod.splits option.splits)

lemma confirm_action_keeps_data:
  "data (snd (confirm_action benv st)) = data st"
  using perform_keeps_data [of benv st]
  by (auto simp: confirm_action_def Let_def split: prod.splits perform_result.splits)

lemma confirm_action_ends:
  "conv (snd (confirm_action benv st)) = END"
  by (auto simp: confirm_action_def Let_def split: prod.splits perform_result.splits)

text \<open>
  Claim C9, as amended. No handler clears \<open>context.user_data\<close>: whenever handling an update
  leaves the conversation in \<open>END\<close> (a confirmed action, a negative answer, \<open>/cancel\<close>), the
  captured channel username, post id and pending task type are what they were before the
  update; and an update that arrives in \<open>END\<close>, \<open>/menu\<close> included, does not change them
  either, so the next conversation starts with them.
\<close>

theorem end_keeps_context:
  "(conv (snd (handle_update benv st upd)) = END \<longrightarrow>
      data (snd (handle_update benv st upd)) = data st)
   \<and> (conv st = END \<longrightarrow> data (snd (handle_update benv st upd)) = data st)"
  by (cases upd; cases "conv st")
     (auto simp: handle_update_def fallback_def cancel_def cancel_action_def
        confirm_action_keeps_data process_channel_analysis_def process_content_plan_def
        process_post_analysis_def process_survey_creation_def Let_def
      split: if_splits sum.splits)

text \<open>
  Claim C9, as stated, fails: after \<open>/menu\<close>, the menu entry for the channel analysis,
  \<open>@testchan\<close> and a confirmation, the conversation has ended and the context still holds
  the channel and the pending task.
\<close>

theorem context_survives_end:
  "conv (snd (run_updates ex_bot_env ex_bot_state
           [Command ''menu'', Text label_analyze_channel, Text ''@testchan'', Text label_yes])) = END
   \<and> data (snd (run_updates ex_bot_env ex_bot_state
           [Command ''menu'', Text label_analyze_channel, Text ''@testchan'', Text label_yes])) =
       \<lparr>ud_channel_username = Some ''testchan'', ud_post_id = None,
        ud_pending_action = Some ''analyze_channel''\<rparr>"
  by (simp add: handle_update_def matches_def label_analyze_channel_def
        label_generate_content_plan_def label_analyze_post_def label_create_survey_def
        label_yes_def label_no_def process_channel_analysis_def normalize_channel_def
        strip_def is_space_def code_point_def continuation_def confirm_action_def
        perform_channel_analysis_def falsy_str.simps
        open_session_def close_session_def report_def has_error_def subscript_def
        analyze_channel_content_def query_posts_def run_query_def order_desc_def
        error_payload_def ex_bot_env_def ex_bot_state_def ex_env_def ex_engine_def
        empty_user_data_def empty_db_def Let_def)

text \<open>The amended claim C9 on a negative answer to the confirmation, followed by
  \<open>/menu\<close>.\<close>

theorem end_keeps_context_witness:
  "conv (snd (handle_update ex_bot_env
          (ex_bot_state\<lparr>conv := WAITING_FOR_CONFIRMATION,
              data := \<lparr>ud_channel_username = Some ''testchan'', ud_post_id = None,
                        ud_pending_action = Some ''analyze_channel''\<rparr>\<rparr>)
          (Text label_no))) = END
   \<and> data (snd (handle_update ex_bot_env
          (ex_bot_state\<lparr>conv := WAITING_FOR_CONFIRMATION,
              data := \<lparr>ud_channel_username = Some ''testchan'', ud_post_id = None,
                        ud_pending_action = Some ''analyze_channel''\<rparr>\<rparr>)
          (Text label_no))) =
       \<lparr>ud_channel_username = Some ''testchan'', ud_post_id = None,
        ud_pending_action = Some ''analyze_channel''\<rparr>
   \<and> data (snd (handle_update ex_bot_env
          (ex_bot_state\<lparr>data := \<lparr>ud_channel_username = Some ''testchan'', ud_post_id = None,
                                  ud_pending_action = Some ''analyze_channel''\<rparr>\<rparr>)
          (Command ''menu''))) =
       \<lparr>ud_channel_username = Some ''testchan'', ud_post_id = None,
        ud_pending_action = Some ''analyze_channel''\<rparr>"
proof -
  let ?data = "\<lparr>ud_channel_username = Some ''testchan'', ud_post_id = None,
                ud_pending_action = Some ''analyze_channel''\<rparr>"
  let ?waiting = "ex_bot_state\<lparr>conv := WAITING_FOR_CONFIRMATION, data := ?data\<rparr>"
  let ?ended = "ex_bot_state\<lparr>data := ?data\<rparr>"
  have ended: "conv (snd (handle_update ex_bot_env ?waiting (Text label_no))) = END"
    by (simp add: handle_update_def matches_def label_yes_def label_no_def cancel_action_def)
  have idle: "conv ?ended = END"
    by (simp add: ex_bot_state_def)
  from end_keeps_context [of ex_bot_env ?waiting "Text label_no"]
       end_keeps_context [of ex_bot_env ?ended "Command ''menu''"] ended idle
  show ?thesis
    by simp
qed

end
